theory Spec2Isabelle
  imports Main
begin

section \<open>Data model of config.go\<close>

text \<open>The two \<^verbatim>\<open>iota\<close> enumerations of config.go, in declaration order (the first
  constructor is the zero value).\<close>

datatype output_type =
  FileOutputType | S3OutputType | TCPOutputType | UDPOutputType
  | SyslogOutputType | HttpOutputType | SplunkOutputType | KafkaOutputType

datatype output_format = LEEFOutputFormat | JSONOutputFormat

subsection \<open>The fragment of Go's text/template that the default templates use\<close>

text \<open>
  A parsed \<^verbatim>\<open>*template.Template\<close> is a list of nodes: literal text and actions.
  Three node types follow the three kinds of data the templates are executed on:
  the event templates of the behaviours run on the text of one event (\<^verbatim>\<open>{{.}}\<close>),
  the body of \<^verbatim>\<open>{{range .Events}}\<close> runs on one \<^verbatim>\<open>UploadEvent\<close>
  (\<^verbatim>\<open>{{.EventText}}\<close>), and the post template runs on the \<^verbatim>\<open>UploadData\<close>
  (\<^verbatim>\<open>{{.FileName}}\<close>, \<^verbatim>\<open>{{range .Events}}...{{end}}\<close>).
  text/template writes a string value verbatim (no escaping).
\<close>

datatype text_node = TText string | TDot

datatype event_node = EText string | EEventText

datatype post_node = PText string | PFileName | PRangeEvents "event_node list"

type_synonym event_template = "text_node list"
type_synonym post_template = "post_node list"

record UploadEvent =
  EventText :: string

record UploadData =
  FileName :: string
  FileSize :: int
  Events :: "UploadEvent list"

fun exec_text_node :: "text_node \<Rightarrow> string \<Rightarrow> string" where
  "exec_text_node (TText s) dot = s"
| "exec_text_node TDot dot = dot"

definition Execute_event_template :: "event_template \<Rightarrow> string \<Rightarrow> string" where
  "Execute_event_template t dot = concat (map (\<lambda>n. exec_text_node n dot) t)"

fun exec_event_node :: "event_node \<Rightarrow> UploadEvent \<Rightarrow> string" where
  "exec_event_node (EText s) ev = s"
| "exec_event_node EEventText ev = EventText ev"

fun exec_post_node :: "post_node \<Rightarrow> UploadData \<Rightarrow> string" where
  "exec_post_node (PText s) d = s"
| "exec_post_node PFileName d = FileName d"
| "exec_post_node (PRangeEvents body) d =
     concat (map (\<lambda>ev. concat (map (\<lambda>n. exec_event_node n ev) body)) (Events d))"

definition Execute_post_template :: "post_template \<Rightarrow> UploadData \<Rightarrow> string" where
  "Execute_post_template t d = concat (map (\<lambda>n. exec_post_node n d) t)"

subsection \<open>crypto/tls configuration, as far as configureTLS fills it\<close>

record tls_Config =
  InsecureSkipVerify :: bool
  Certificates :: "string list"
  RootCAs :: "string option"
  TLSServerName :: string
  MinVersion :: nat

subsection \<open>Configuration and ConfigurationError\<close>

text \<open>Pointer fields (\<^verbatim>\<open>*string\<close>, \<^verbatim>\<open>*template.Template\<close>, \<^verbatim>\<open>*tls.Config\<close>) are
  options, \<open>None\<close> being \<^verbatim>\<open>nil\<close>. \<open>BundleSendTimeout\<close> is a \<^verbatim>\<open>time.Duration\<close>, an
  int64 count of nanoseconds.\<close>

record Configuration =
  ServerName :: string
  AMQPHostname :: string
  DebugFlag :: bool
  DebugStore :: string
  OutputType :: output_type
  OutputFormat :: output_format
  AMQPUsername :: string
  AMQPPassword :: string
  AMQPPort :: int
  AMQPTLSEnabled :: bool
  AMQPTLSClientKey :: string
  AMQPTLSClientCert :: string
  AMQPTLSCACert :: string
  AMQPQueueName :: string
  AMQPAutoDeleteQueue :: bool
  OutputParameters :: string
  EventTypes :: "string list"
  EventMap :: "string \<rightharpoonup> bool"
  HTTPServerPort :: int
  CbServerURL :: string
  UseRawSensorExchange :: bool
  MonitoredLogs :: "string list"
  S3ServerSideEncryption :: "string option"
  S3CredentialProfileName :: "string option"
  S3ACLPolicy :: "string option"
  S3ObjectPrefix :: "string option"
  S3VerboseKey :: bool
  S3CompressData :: bool
  TLSClientKey :: "string option"
  TLSClientCert :: "string option"
  TLSCACert :: "string option"
  TLSVerify :: bool
  TLSCName :: "string option"
  TLS12Only :: bool
  HttpAuthorizationToken :: "string option"
  HttpPostTemplate :: "post_template option"
  HttpContentType :: "string option"
  UploadEmptyFiles :: bool
  CommaSeparateEvents :: bool
  BundleSendTimeout :: int
  BundleSizeMax :: int
  FileHandlerCompressData :: bool
  TLSConfig :: "tls_Config option"
  PerformFeedPostprocessing :: bool
  CbAPIToken :: string
  CbAPIVerifySSL :: bool
  CbAPIProxyUrl :: string
  KafkaBrokers :: "string option"
  KafkaTopicSuffix :: "string option"
  AuditingEnabled :: bool
  AuditRedisHost :: string
  AuditRedisDatabaseNumber :: int
  AuditPipelineSize :: int
  SplunkToken :: "string option"
  AuditLog :: bool

record ConfigurationError =
  Errors :: "string list"
  Empty :: bool

section \<open>The HTTP-family destination behaviours\<close>

subsection \<open>Types declared elsewhere in the repository, as the behaviours use them\<close>

text \<open>\<^verbatim>\<open>UploadStatus\<close>: \<open>result\<close> is Go's \<^verbatim>\<open>error\<close>, \<open>None\<close> for \<^verbatim>\<open>nil\<close> and
  otherwise the text of the error; a field left out of a composite literal has its zero
  value.\<close>

record UploadStatus =
  fileName :: string
  result :: "string option"
  status :: int

text \<open>The \<^verbatim>\<open>*os.File\<close> handed to Upload: what \<^verbatim>\<open>fp.Stat()\<close> answers (an error text
  or the size) and the event records stored in the file, in order (a bundle is an ordered
  sequence of event records).\<close>

record os_File =
  Stat :: "string + int"
  file_records :: "string list"

record http_Request =
  Method :: string
  URL :: string
  Header :: "string \<rightharpoonup> string"
  RequestBody :: string

record http_Response =
  Status :: string
  StatusCode :: int
  Body :: string

record http_Client =
  TLSClientConfig :: "tls_Config option"

text \<open>What lies outside the program at upload time: whether \<^verbatim>\<open>http.NewRequest\<close>
  rejects the method and URL (the error text), and what \<^verbatim>\<open>client.Do\<close> answers for a
  request: a transport error or a response whose body has been read to the end.\<close>

record http_world =
  http_NewRequest :: "string \<Rightarrow> string \<Rightarrow> string option"
  client_Do :: "http_Client \<Rightarrow> http_Request \<Rightarrow> string + http_Response"

datatype panic = NilPointerDereference | TemplatePanic | LogPanic | LogFatal

text \<open>
  Modelled from the spec: \<^verbatim>\<open>convertFileIntoTemplate\<close> is called by both Upload
  functions and defined outside the files at hand. The specification of the streaming
  renderer says: for each record in bundle order, the first-record template is applied to
  the first record and the subsequent-record template to every following record; the
  results are the events the post template ranges over.
\<close>

fun convertFileIntoTemplate ::
  "string list \<Rightarrow> event_template \<Rightarrow> event_template \<Rightarrow> UploadEvent list" where
  "convertFileIntoTemplate [] firstEventTemplate subsequentEventTemplate = []"
| "convertFileIntoTemplate (r # rs) firstEventTemplate subsequentEventTemplate =
     \<lparr>EventText = Execute_event_template firstEventTemplate r\<rparr>
     # map (\<lambda>x. \<lparr>EventText = Execute_event_template subsequentEventTemplate x\<rparr>) rs"

subsection \<open>HttpBehavior\<close>

record HttpBehavior =
  dest :: string
  headers :: "string \<rightharpoonup> string"
  client :: http_Client
  httpPostTemplate :: "post_template option"
  firstEventTemplate :: event_template
  subsequentEventTemplate :: event_template

text \<open>\<^verbatim>\<open>Initialize\<close> assigns every field of the receiver and returns \<^verbatim>\<open>nil\<close>; the
  only way it does not is the dereference of \<^verbatim>\<open>config.HttpContentType\<close>. The global
  \<^verbatim>\<open>config\<close> is the first argument. The result is the initialised receiver and the
  returned error.\<close>

definition HttpBehavior_Initialize ::
  "Configuration \<Rightarrow> string \<Rightarrow> panic + (HttpBehavior \<times> string option)" where
  \<open>HttpBehavior_Initialize config d =
     (let hdrs = Map.empty;
          hdrs = (case HttpAuthorizationToken config of
                    Some token \<Rightarrow> hdrs(''Authorization'' \<mapsto> token)
                  | None \<Rightarrow> hdrs)
      in case HttpContentType config of
           None \<Rightarrow> Inl NilPointerDereference
         | Some contentType \<Rightarrow>
             Inr (\<lparr>dest = d,
                   headers = hdrs(''Content-Type'' \<mapsto> contentType),
                   client = \<lparr>TLSClientConfig = TLSConfig config\<rparr>,
                   httpPostTemplate = HttpPostTemplate config,
                   firstEventTemplate = [TDot],
                   subsequentEventTemplate = [TText ''\<newline>, '', TDot]\<rparr>,
                  None))\<close>

definition HttpBehavior_Key :: "HttpBehavior \<Rightarrow> string" where
  "HttpBehavior_Key this = dest this"

definition HttpBehavior_String :: "HttpBehavior \<Rightarrow> string" where
  "HttpBehavior_String this = ''HTTP POST '' @ HttpBehavior_Key this"

text \<open>The request that Upload hands to \<^verbatim>\<open>client.Do\<close>: a POST to \<open>dest\<close>, every entry
  of \<open>headers\<close> set on it (the two keys Initialize stores are already in canonical form),
  and as body what the goroutine writes into the pipe, the post template executed on the
  upload data.\<close>

definition HttpBehavior_request ::
  "HttpBehavior \<Rightarrow> post_template \<Rightarrow> string \<Rightarrow> os_File \<Rightarrow> http_Request" where
  "HttpBehavior_request this postTemplate fn fp =
     (let uploadData =
            \<lparr>FileName = fn,
             FileSize = (case Stat fp of Inr sz \<Rightarrow> sz | Inl err \<Rightarrow> 0),
             Events = convertFileIntoTemplate (file_records fp)
                        (firstEventTemplate this) (subsequentEventTemplate this)\<rparr>
      in \<lparr>Method = ''POST'', URL = dest this, Header = headers this,
          RequestBody = Execute_post_template postTemplate uploadData\<rparr>)"

text \<open>Upload. The error of \<^verbatim>\<open>http.NewRequest\<close> is overwritten unread, so a rejected
  URL leaves \<^verbatim>\<open>request\<close> nil and the program panics on its first use; executing a nil
  post template panics as well.\<close>

definition HttpBehavior_Upload ::
  "http_world \<Rightarrow> HttpBehavior \<Rightarrow> string \<Rightarrow> os_File \<Rightarrow> panic + UploadStatus" where
  \<open>HttpBehavior_Upload w this fn fp =
     (case http_NewRequest w ''POST'' (dest this) of
        Some err \<Rightarrow> Inl NilPointerDereference
      | None \<Rightarrow>
         (case httpPostTemplate this of
            None \<Rightarrow> Inl NilPointerDereference
          | Some postTemplate \<Rightarrow>
             (case client_Do w (client this) (HttpBehavior_request this postTemplate fn fp) of
                Inl err \<Rightarrow> Inr \<lparr>fileName = fn, result = Some err, status = 0\<rparr>
              | Inr resp \<Rightarrow>
                 if StatusCode resp \<noteq> 200
                 then (let errorData = Status resp @ ''\<newline>'' @ Body resp
                       in Inr \<lparr>fileName = fn,
                               result = Some (''HTTP request failed: Error code '' @ errorData),
                               status = StatusCode resp\<rparr>)
                 else Inr \<lparr>fileName = fn, result = None, status = 200\<rparr>)))\<close>

subsection \<open>SplunkBehavior\<close>

record SplunkBehavior =
  splunk_dest :: string
  splunk_headers :: "string \<rightharpoonup> string"
  splunk_client :: http_Client
  splunk_httpPostTemplate :: "post_template option"
  splunk_firstEventTemplate :: event_template
  splunk_subsequentEventTemplate :: event_template

definition SplunkBehavior_Initialize ::
  "Configuration \<Rightarrow> string \<Rightarrow> panic + (SplunkBehavior \<times> string option)" where
  \<open>SplunkBehavior_Initialize config d =
     (let hdrs = Map.empty;
          hdrs = (case SplunkToken config of
                    Some token \<Rightarrow> hdrs(''Authorization'' \<mapsto> ''Splunk '' @ token)
                  | None \<Rightarrow> hdrs)
      in case HttpContentType config of
           None \<Rightarrow> Inl NilPointerDereference
         | Some contentType \<Rightarrow>
             Inr (\<lparr>splunk_dest = d,
                   splunk_headers = hdrs(''Content-Type'' \<mapsto> contentType),
                   splunk_client = \<lparr>TLSClientConfig = TLSConfig config\<rparr>,
                   splunk_httpPostTemplate = HttpPostTemplate config,
                   splunk_firstEventTemplate = [TDot],
                   splunk_subsequentEventTemplate = [TDot]\<rparr>,
                  None))\<close>

definition SplunkBehavior_Key :: "SplunkBehavior \<Rightarrow> string" where
  "SplunkBehavior_Key this = splunk_dest this"

definition SplunkBehavior_String :: "SplunkBehavior \<Rightarrow> string" where
  "SplunkBehavior_String this = ''Splunk HTTP Event Collector '' @ SplunkBehavior_Key this"

definition SplunkBehavior_request ::
  "SplunkBehavior \<Rightarrow> post_template \<Rightarrow> string \<Rightarrow> os_File \<Rightarrow> http_Request" where
  "SplunkBehavior_request this postTemplate fn fp =
     (let uploadData =
            \<lparr>FileName = fn,
             FileSize = (case Stat fp of Inr sz \<Rightarrow> sz | Inl err \<Rightarrow> 0),
             Events = convertFileIntoTemplate (file_records fp)
                        (splunk_firstEventTemplate this) (splunk_subsequentEventTemplate this)\<rparr>
      in \<lparr>Method = ''POST'', URL = splunk_dest this, Header = splunk_headers this,
          RequestBody = Execute_post_template postTemplate uploadData\<rparr>)"

definition SplunkBehavior_Upload ::
  "http_world \<Rightarrow> SplunkBehavior \<Rightarrow> string \<Rightarrow> os_File \<Rightarrow> panic + UploadStatus" where
  \<open>SplunkBehavior_Upload w this fn fp =
     (case http_NewRequest w ''POST'' (splunk_dest this) of
        Some err \<Rightarrow> Inl NilPointerDereference
      | None \<Rightarrow>
         (case splunk_httpPostTemplate this of
            None \<Rightarrow> Inl NilPointerDereference
          | Some postTemplate \<Rightarrow>
             (case client_Do w (splunk_client this)
                     (SplunkBehavior_request this postTemplate fn fp) of
                Inl err \<Rightarrow> Inr \<lparr>fileName = fn, result = Some err, status = 0\<rparr>
              | Inr resp \<Rightarrow>
                 if StatusCode resp \<noteq> 200
                 then (let errorData = Status resp @ ''\<newline>'' @ Body resp
                       in Inr \<lparr>fileName = fn,
                               result = Some (''HTTP request failed: Error code '' @ errorData),
                               status = StatusCode resp\<rparr>)
                 else Inr \<lparr>fileName = fn, result = None, status = 200\<rparr>)))\<close>

section \<open>Configuration parsing (config.go)\<close>

subsection \<open>Library functions used by ParseConfig\<close>

text \<open>go-ini: a file is a map from section names to sections, a section a map from keys to
  values. \<^verbatim>\<open>Get\<close> answers \<open>None\<close> where the Go function answers \<^verbatim>\<open>ok = false\<close>.\<close>

type_synonym ini_Section = "string \<rightharpoonup> string"
type_synonym ini_File = "string \<rightharpoonup> ini_Section"

definition Get :: "ini_File \<Rightarrow> string \<Rightarrow> string \<Rightarrow> string option" where
  "Get f section key = (case f section of None \<Rightarrow> None | Some s \<Rightarrow> s key)"

text \<open>What lies outside the program while the configuration is read: the files go-ini
  loads (an error text or the parsed file), the key pair and CA files crypto/tls and
  ioutil read, text/template's parser for a template written in the configuration
  file (an error text or the parsed template), and what Go's Unicode tables make
  \<^verbatim>\<open>strings.ToLower\<close> and \<^verbatim>\<open>strings.TrimSpace\<close> return for a string that is not
  pure ASCII.\<close>

record config_world =
  ini_LoadFile :: "string \<Rightarrow> string + ini_File"
  tls_LoadX509KeyPair :: "string \<Rightarrow> string \<Rightarrow> string + string"
  ioutil_ReadFile :: "string \<Rightarrow> string + string"
  template_Parse :: "string \<Rightarrow> string + post_template"
  unicode_ToLower :: "string \<Rightarrow> string"
  unicode_TrimSpace :: "string \<Rightarrow> string"

text \<open>Strings are byte strings. On a string of ASCII bytes \<^verbatim>\<open>strings.TrimSpace\<close> removes
  the leading and trailing bytes among tab, line feed, vertical tab, form feed, carriage
  return and space, and \<^verbatim>\<open>strings.ToLower\<close> maps A to Z bytewise. On a string with a
  byte of 0x80 or more both decode UTF-8 and consult the Unicode tables (the Kelvin sign
  lower-cases to k, U+0085 is white space); their result is then the world's.\<close>

definition is_ascii :: "string \<Rightarrow> bool" where
  "is_ascii s = list_all (\<lambda>c. (of_char c :: nat) < 128) s"

definition is_space :: "char \<Rightarrow> bool" where
  "is_space c = (c \<in> set [CHR 0x09, CHR 0x0A, CHR 0x0B, CHR 0x0C, CHR 0x0D, CHR 0x20])"

definition strings_TrimSpace :: "config_world \<Rightarrow> string \<Rightarrow> string" where
  "strings_TrimSpace w s =
     (if is_ascii s then rev (dropWhile is_space (rev (dropWhile is_space s)))
      else unicode_TrimSpace w s)"

definition lower_char :: "char \<Rightarrow> char" where
  "lower_char c =
     (case map_of (zip ''ABCDEFGHIJKLMNOPQRSTUVWXYZ'' ''abcdefghijklmnopqrstuvwxyz'') c of
        Some l \<Rightarrow> l
      | None \<Rightarrow> c)"

definition strings_ToLower :: "config_world \<Rightarrow> string \<Rightarrow> string" where
  "strings_ToLower w s = (if is_ascii s then map lower_char s else unicode_ToLower w s)"

definition strings_HasSuffix_slash :: "string \<Rightarrow> bool" where
  "strings_HasSuffix_slash s = (s \<noteq> [] \<and> last s = CHR ''/'')"

text \<open>\<^verbatim>\<open>strings.Split(s, ",")\<close>: the pieces between the commas, one (empty) piece for
  the empty string.\<close>

fun strings_Split_comma :: "string \<Rightarrow> string list" where
  "strings_Split_comma [] = [[]]"
| "strings_Split_comma (c # cs) =
     (if c = CHR '','' then [] # strings_Split_comma cs
      else (case strings_Split_comma cs of
              [] \<Rightarrow> [[c]]
            | x # xs \<Rightarrow> (c # x) # xs))"

text \<open>\<^verbatim>\<open>strconv.ParseBool\<close>: exactly these twelve spellings.\<close>

definition strconv_ParseBool :: "string \<Rightarrow> bool option" where
  "strconv_ParseBool str =
     (if str \<in> set [''1'', ''t'', ''T'', ''TRUE'', ''true'', ''True''] then Some True
      else if str \<in> set [''0'', ''f'', ''F'', ''FALSE'', ''false'', ''False''] then Some False
      else None)"

text \<open>\<^verbatim>\<open>strconv.ParseInt(s, 10, 64)\<close>: an optional sign, then one or more decimal
  digits; a value outside the int64 range is an error as well. \<^verbatim>\<open>strconv.Atoi\<close> is the
  same function for Go's \<^verbatim>\<open>int\<close>, 64 bits wide on the build target.\<close>

definition is_digit :: "char \<Rightarrow> bool" where
  "is_digit c = (c \<in> set ''0123456789'')"

definition digits_value :: "string \<Rightarrow> nat" where
  "digits_value ds = foldl (\<lambda>acc c. 10 * acc + (of_char c - 48)) 0 ds"

definition strconv_ParseInt :: "string \<Rightarrow> int option" where
  "strconv_ParseInt s =
     (let (neg, ds) = (case s of
                         [] \<Rightarrow> (False, [])
                       | c # cs \<Rightarrow> if c = CHR ''+'' then (False, cs)
                                   else if c = CHR ''-'' then (True, cs)
                                   else (False, s))
      in if ds = [] \<or> \<not> list_all is_digit ds then None
         else (let v = (if neg then - int (digits_value ds) else int (digits_value ds))
               in if - (2 ^ 63) \<le> v \<and> v < 2 ^ 63 then Some v else None))"

definition strconv_Atoi :: "string \<Rightarrow> int option" where
  "strconv_Atoi s = strconv_ParseInt s"

text \<open>int64 arithmetic wraps around: the value of a product computed in
  \<^verbatim>\<open>time.Duration\<close>.\<close>

definition wrap_int64 :: "int \<Rightarrow> int" where
  "wrap_int64 x = (x + 2 ^ 63) mod 2 ^ 64 - 2 ^ 63"

definition time_Second :: int where
  "time_Second = 1000000000"

definition time_Minute :: int where
  "time_Minute = 60 * time_Second"

definition VersionTLS10 :: nat where
  "VersionTLS10 = 0x0301"

definition VersionTLS12 :: nat where
  "VersionTLS12 = 0x0303"

definition template_Must :: "string + post_template \<Rightarrow> panic + post_template" where
  "template_Must r = (case r of Inl err \<Rightarrow> Inl TemplatePanic | Inr t \<Rightarrow> Inr t)"

subsection \<open>ConfigurationError\<close>

definition addErrorString :: "ConfigurationError \<Rightarrow> string \<Rightarrow> ConfigurationError" where
  "addErrorString e err = e\<lparr>Empty := False, Errors := Errors e @ [err]\<rparr>"

definition addError :: "ConfigurationError \<Rightarrow> string \<Rightarrow> ConfigurationError" where
  "addError e err = e\<lparr>Empty := False, Errors := Errors e @ [err]\<rparr>"

text \<open>The \<^verbatim>\<open>error\<close> ParseConfig returns: the error of \<^verbatim>\<open>ini.LoadFile\<close> or the
  collected ConfigurationError.\<close>

datatype config_error = IniLoadError string | ConfigurationErr ConfigurationError

subsection \<open>The zero Configuration\<close>

definition Configuration_zero :: Configuration where
  "Configuration_zero =
     \<lparr>ServerName = [], AMQPHostname = [], DebugFlag = False, DebugStore = [],
      OutputType = FileOutputType, OutputFormat = LEEFOutputFormat,
      AMQPUsername = [], AMQPPassword = [], AMQPPort = 0, AMQPTLSEnabled = False,
      AMQPTLSClientKey = [], AMQPTLSClientCert = [], AMQPTLSCACert = [],
      AMQPQueueName = [], AMQPAutoDeleteQueue = False, OutputParameters = [],
      EventTypes = [], EventMap = Map.empty, HTTPServerPort = 0, CbServerURL = [],
      UseRawSensorExchange = False, MonitoredLogs = [],
      S3ServerSideEncryption = None, S3CredentialProfileName = None, S3ACLPolicy = None,
      S3ObjectPrefix = None, S3VerboseKey = False, S3CompressData = False,
      TLSClientKey = None, TLSClientCert = None, TLSCACert = None, TLSVerify = False,
      TLSCName = None, TLS12Only = False,
      HttpAuthorizationToken = None, HttpPostTemplate = None, HttpContentType = None,
      UploadEmptyFiles = False, CommaSeparateEvents = False, BundleSendTimeout = 0,
      BundleSizeMax = 0, FileHandlerCompressData = False, TLSConfig = None,
      PerformFeedPostprocessing = False, CbAPIToken = [], CbAPIVerifySSL = False,
      CbAPIProxyUrl = [], KafkaBrokers = None, KafkaTopicSuffix = None,
      AuditingEnabled = False, AuditRedisHost = [], AuditRedisDatabaseNumber = 0,
      AuditPipelineSize = 0, SplunkToken = None, AuditLog = False\<rparr>"

subsection \<open>parseCbConf, parseEventTypes, parseMonitoredLogs, configureTLS\<close>

definition parseCbConf :: "config_world \<Rightarrow> string \<times> string \<times> string option" where
  "parseCbConf w =
     (case ini_LoadFile w ''/etc/cb/cb.conf'' of
        Inl err \<Rightarrow> ([], [], Some err)
      | Inr input \<Rightarrow>
         (let username = (case Get input [] ''RabbitMQUser'' of Some v \<Rightarrow> v | None \<Rightarrow> []);
              password = (case Get input [] ''RabbitMQPassword'' of Some v \<Rightarrow> v | None \<Rightarrow> [])
          in if length username = 0 \<or> length password = 0
             then (username, password,
                   Some ''Could not get RabbitMQ credentials from /etc/cb/cb.conf'')
             else (username, password, None)))"

definition eventTypes :: "(string \<times> string list) list" where
  "eventTypes =
     [(''events_watchlist'', [''watchlist.#'']),
      (''events_feed'', [''feed.#'']),
      (''events_alert'', [''alert.#'']),
      (''events_raw_sensor'',
         [''ingress.event.process'', ''ingress.event.procstart'', ''ingress.event.netconn'',
          ''ingress.event.procend'', ''ingress.event.childproc'',
          ''ingress.event.moduleload'', ''ingress.event.module'', ''ingress.event.filemod'',
          ''ingress.event.regmod'', ''ingress.event.tamper'',
          ''ingress.event.crossprocopen'', ''ingress.event.remotethread'',
          ''ingress.event.processblock'', ''ingress.event.emetmitigation'']),
      (''events_binary_observed'', [''binaryinfo.#'']),
      (''events_binary_upload'', [''binarystore.#'']),
      (''events_storage_partition'', [''events.partition.#''])]"

text \<open>One round of the first loop of parseEventTypes.\<close>

definition parseEventType ::
  "config_world \<Rightarrow> ini_File \<Rightarrow> Configuration \<Rightarrow> string \<times> string list
     \<Rightarrow> Configuration" where
  "parseEventType w input c eventType =
     (case Get input ''bridge'' (fst eventType) of
        None \<Rightarrow> c
      | Some val \<Rightarrow>
         (let val = strings_ToLower w val
          in if val = ''all'' then c\<lparr>EventTypes := EventTypes c @ snd eventType\<rparr>
             else if val = ''0'' then c
             else c\<lparr>EventTypes := EventTypes c @ strings_Split_comma val\<rparr>))"

definition parseEventTypes ::
  "config_world \<Rightarrow> ini_File \<Rightarrow> Configuration \<Rightarrow> Configuration" where
  "parseEventTypes w input c =
     (let c = foldl (parseEventType w input) c eventTypes;
          c = c\<lparr>EventMap := Map.empty\<rparr>
      in foldl (\<lambda>c eventName. c\<lparr>EventMap := (EventMap c)(eventName \<mapsto> True)\<rparr>)
           c (EventTypes c))"

definition parseMonitoredLogs :: "ini_File \<Rightarrow> Configuration \<Rightarrow> Configuration" where
  "parseMonitoredLogs input c =
     (case Get input ''bridge'' ''monitored_logs'' of
        None \<Rightarrow> c
      | Some val \<Rightarrow> c\<lparr>MonitoredLogs := MonitoredLogs c @ strings_Split_comma val\<rparr>)"

text \<open>configureTLS: \<^verbatim>\<open>log.Fatal\<close> ends the process when a configured key pair or CA
  file cannot be read.\<close>

definition configureTLS :: "config_world \<Rightarrow> Configuration \<Rightarrow> panic + tls_Config" where
  "configureTLS w config =
     (let tlsConfig = \<lparr>InsecureSkipVerify = False, Certificates = [], RootCAs = None,
                       TLSServerName = [], MinVersion = 0\<rparr>;
          tlsConfig = (if TLSVerify config = False
                       then tlsConfig\<lparr>InsecureSkipVerify := True\<rparr> else tlsConfig)
      in case (case (TLSClientCert config, TLSClientKey config) of
                 (Some cert, Some key) \<Rightarrow>
                   if length cert > 0 \<and> length key > 0
                   then (case tls_LoadX509KeyPair w cert key of
                           Inl err \<Rightarrow> Inl LogFatal
                         | Inr pair \<Rightarrow> Inr (tlsConfig\<lparr>Certificates := [pair]\<rparr>))
                   else Inr tlsConfig
               | _ \<Rightarrow> Inr tlsConfig) of
           Inl p \<Rightarrow> Inl p
         | Inr tlsConfig \<Rightarrow>
            (case (case TLSCACert config of
                     Some ca \<Rightarrow>
                       if length ca > 0
                       then (case ioutil_ReadFile w ca of
                               Inl err \<Rightarrow> Inl LogFatal
                             | Inr caCert \<Rightarrow> Inr (tlsConfig\<lparr>RootCAs := Some caCert\<rparr>))
                       else Inr tlsConfig
                   | None \<Rightarrow> Inr tlsConfig) of
               Inl p \<Rightarrow> Inl p
             | Inr tlsConfig \<Rightarrow>
                (let tlsConfig = (case TLSCName config of
                                    Some cname \<Rightarrow>
                                      if length cname > 0
                                      then tlsConfig\<lparr>TLSServerName := cname\<rparr>
                                      else tlsConfig
                                  | None \<Rightarrow> tlsConfig)
                 in if TLS12Only config = True
                    then Inr (tlsConfig\<lparr>MinVersion := VersionTLS12\<rparr>)
                    else Inr (tlsConfig\<lparr>MinVersion := VersionTLS10\<rparr>))))"

subsection \<open>ParseConfig\<close>

text \<open>
  ParseConfig is one long function; it is given here block by block, in source order, each
  block taking and returning the locals \<open>config\<close> and \<open>errs\<close>. Logging is left out.
  An \<open>Inl\<close> result is a panic or \<^verbatim>\<open>log.Fatal\<close>: the function does not return.
\<close>

text \<open>Lines 237 to 395: the defaults and the settings of the \<^verbatim>\<open>[bridge]\<close> section up to
  \<^verbatim>\<open>audit_log\<close>.\<close>

definition ParseConfig_bridge ::
  "config_world \<Rightarrow> ini_File \<Rightarrow> Configuration \<Rightarrow> ConfigurationError
     \<Rightarrow> Configuration \<times> ConfigurationError" where
  "ParseConfig_bridge w input config errs =
     (let config = config\<lparr>DebugFlag := False, OutputFormat := JSONOutputFormat,
                           OutputType := FileOutputType, AMQPHostname := ''localhost'',
                           AMQPUsername := ''cb'', HTTPServerPort := 33706,
                           AMQPPort := 5004, DebugStore := ''/tmp'',
                           S3ACLPolicy := None, S3ServerSideEncryption := None,
                           S3CredentialProfileName := None, AMQPAutoDeleteQueue := True\<rparr>;
          config = (case Get input ''bridge'' ''server_name'' of
                      None \<Rightarrow> config\<lparr>ServerName := ''CB''\<rparr>
                    | Some val \<Rightarrow> config\<lparr>ServerName := val\<rparr>);
          config = (case Get input ''bridge'' ''debug'' of
                      Some val \<Rightarrow> if val = ''1'' then config\<lparr>DebugFlag := True\<rparr> else config
                    | None \<Rightarrow> config);
          config = (case Get input ''bridge'' ''debug_store'' of
                      Some debugStore \<Rightarrow> config\<lparr>DebugStore := debugStore\<rparr>
                    | None \<Rightarrow>
                        config\<lparr>DebugStore := ''/var/log/cb/integrations/cb-event-forwarder''\<rparr>);
          config = (case Get input ''bridge'' ''http_server_port'' of
                      Some val \<Rightarrow> (case strconv_Atoi val of
                                     Some port \<Rightarrow> config\<lparr>HTTPServerPort := port\<rparr>
                                   | None \<Rightarrow> config)
                    | None \<Rightarrow> config);
          config = (case Get input ''bridge'' ''rabbit_mq_username'' of
                      Some val \<Rightarrow> config\<lparr>AMQPUsername := val\<rparr>
                    | None \<Rightarrow> config);
          (config, errs) =
             (case Get input ''bridge'' ''rabbit_mq_password'' of
                None \<Rightarrow> (config,
                          addErrorString errs ''Missing required rabbit_mq_password section'')
              | Some val \<Rightarrow> (config\<lparr>AMQPPassword := val\<rparr>, errs));
          config = (case Get input ''bridge'' ''rabbit_mq_port'' of
                      Some val \<Rightarrow> (case strconv_Atoi val of
                                     Some port \<Rightarrow> config\<lparr>AMQPPort := port\<rparr>
                                   | None \<Rightarrow> config)
                    | None \<Rightarrow> config);
          config = (case Get input ''bridge'' ''rabbit_mq_auto_delete_queue'' of
                      Some val \<Rightarrow> (case strconv_ParseBool val of
                                     Some b \<Rightarrow> config\<lparr>AMQPAutoDeleteQueue := b\<rparr>
                                   | None \<Rightarrow> config)
                    | None \<Rightarrow> config);
          (config, errs) =
             (if length (AMQPUsername config) = 0 \<or> length (AMQPPassword config) = 0
              then (case parseCbConf w of
                      (username, password, err) \<Rightarrow>
                        (config\<lparr>AMQPUsername := username, AMQPPassword := password\<rparr>,
                         (case err of Some e \<Rightarrow> addError errs e | None \<Rightarrow> errs)))
              else (config, errs));
          config = (case Get input ''bridge'' ''rabbit_mq_use_tls'' of
                      Some val \<Rightarrow> (case strconv_ParseBool val of
                                     Some b \<Rightarrow> config\<lparr>AMQPTLSEnabled := b\<rparr>
                                   | None \<Rightarrow> config)
                    | None \<Rightarrow> config);
          config = (case Get input ''bridge'' ''rabbit_mq_key'' of
                      Some rabbitKeyFilename \<Rightarrow> config\<lparr>AMQPTLSClientKey := rabbitKeyFilename\<rparr>
                    | None \<Rightarrow> config);
          config = (case Get input ''bridge'' ''rabbit_mq_cert'' of
                      Some rabbitCertFilename \<Rightarrow>
                        config\<lparr>AMQPTLSClientCert := rabbitCertFilename\<rparr>
                    | None \<Rightarrow> config);
          config = (case Get input ''bridge'' ''rabbit_mq_ca_cert'' of
                      Some rabbitCaCertFilename \<Rightarrow>
                        config\<lparr>AMQPTLSCACert := rabbitCaCertFilename\<rparr>
                    | None \<Rightarrow> config);
          config = (case Get input ''bridge'' ''rabbit_mq_queue_name'' of
                      Some rabbitQueueName \<Rightarrow> config\<lparr>AMQPQueueName := rabbitQueueName\<rparr>
                    | None \<Rightarrow> config);
          config = (case Get input ''bridge'' ''cb_server_hostname'' of
                      Some val \<Rightarrow> config\<lparr>AMQPHostname := val\<rparr>
                    | None \<Rightarrow> config);
          config = (case Get input ''bridge'' ''cb_server_url'' of
                      Some val \<Rightarrow>
                        (let val = (if \<not> strings_HasSuffix_slash val then val @ ''/'' else val)
                         in config\<lparr>CbServerURL := val\<rparr>)
                    | None \<Rightarrow> config);
          config = (case Get input ''bridge'' ''output_format'' of
                      Some val \<Rightarrow>
                        (let val = strings_ToLower w (strings_TrimSpace w val)
                         in if val = ''leef'' then config\<lparr>OutputFormat := LEEFOutputFormat\<rparr>
                            else config)
                    | None \<Rightarrow> config);
          config = config\<lparr>FileHandlerCompressData := False\<rparr>;
          config = (case Get input ''bridge'' ''compress_data'' of
                      Some val \<Rightarrow> (case strconv_ParseBool val of
                                     Some b \<Rightarrow> config\<lparr>FileHandlerCompressData := b\<rparr>
                                   | None \<Rightarrow> config)
                    | None \<Rightarrow> config);
          config = config\<lparr>AuditLog := False\<rparr>;
          config = (case Get input ''bridge'' ''audit_log'' of
                      Some val \<Rightarrow> (case strconv_ParseBool val of
                                     Some b \<Rightarrow> config\<lparr>AuditLog := b\<rparr>
                                   | None \<Rightarrow> config)
                    | None \<Rightarrow> config)
      in (config, errs))"

text \<open>The default post templates, as text/template parses the literals of lines 470, 472,
  514 and 516.\<close>

definition http_json_post_template :: post_template where
  \<open>http_json_post_template =
     [PText ''{"filename": "'', PFileName,
      PText ''", "service": "carbonblack", "alerts":['',
      PRangeEvents [EEventText], PText '']}'']\<close>

definition events_only_post_template :: post_template where
  "events_only_post_template = [PRangeEvents [EEventText]]"

definition splunk_json_post_template :: post_template where
  \<open>splunk_json_post_template =
     [PRangeEvents [EText ''{"sourcetype":"bit9:carbonblack:json","event":'', EEventText,
                    EText ''}'']]\<close>

text \<open>Lines 403 to 530: the switch on the trimmed, lower-cased \<^verbatim>\<open>output_type\<close>. The
  result holds \<open>parameterKey\<close> as well.\<close>

definition ParseConfig_output_type ::
  "config_world \<Rightarrow> ini_File \<Rightarrow> string \<Rightarrow> Configuration \<Rightarrow> ConfigurationError
     \<Rightarrow> panic + (string \<times> Configuration \<times> ConfigurationError)" where
  "ParseConfig_output_type w input outType config errs =
     (if outType = ''file''
      then Inr (''outfile'', config\<lparr>OutputType := FileOutputType\<rparr>, errs)
      else if outType = ''tcp''
      then Inr (''tcpout'', config\<lparr>OutputType := TCPOutputType\<rparr>, errs)
      else if outType = ''udp''
      then Inr (''udpout'', config\<lparr>OutputType := UDPOutputType\<rparr>, errs)
      else if outType = ''s3''
      then
        (let config = config\<lparr>OutputType := S3OutputType\<rparr>;
             config = (case Get input ''s3'' ''credential_profile'' of
                         Some profileName \<Rightarrow>
                           config\<lparr>S3CredentialProfileName := Some profileName\<rparr>
                       | None \<Rightarrow> config);
             config = (case Get input ''s3'' ''acl_policy'' of
                         Some aclPolicy \<Rightarrow> config\<lparr>S3ACLPolicy := Some aclPolicy\<rparr>
                       | None \<Rightarrow> config);
             config = (case Get input ''s3'' ''server_side_encryption'' of
                         Some sseType \<Rightarrow> config\<lparr>S3ServerSideEncryption := Some sseType\<rparr>
                       | None \<Rightarrow> config);
             config = (case Get input ''s3'' ''object_prefix'' of
                         Some objectPrefix \<Rightarrow> config\<lparr>S3ObjectPrefix := Some objectPrefix\<rparr>
                       | None \<Rightarrow> config);
             config = (case Get input ''s3'' ''verbose_key'' of
                         Some val \<Rightarrow> (case strconv_ParseBool val of
                                        Some b \<Rightarrow> config\<lparr>S3VerboseKey := b\<rparr>
                                      | None \<Rightarrow> config)
                       | None \<Rightarrow> config);
             config = (case Get input ''s3'' ''compress_data'' of
                         Some val \<Rightarrow> (case strconv_ParseBool val of
                                        Some b \<Rightarrow> config\<lparr>S3CompressData := b\<rparr>
                                      | None \<Rightarrow> config)
                       | None \<Rightarrow> config\<lparr>S3CompressData := True\<rparr>)
         in Inr (''s3out'', config, errs))
      else if outType = ''http''
      then
        (let config = config\<lparr>OutputType := HttpOutputType\<rparr>;
             config = (case Get input ''http'' ''authorization_token'' of
                         Some token \<Rightarrow> config\<lparr>HttpAuthorizationToken := Some token\<rparr>
                       | None \<Rightarrow> config)
         in case (case Get input ''http'' ''http_post_template'' of
                    Some postTemplate \<Rightarrow> template_Must (template_Parse w postTemplate)
                  | None \<Rightarrow>
                      if OutputFormat config = JSONOutputFormat
                      then Inr http_json_post_template
                      else Inr events_only_post_template) of
              Inl p \<Rightarrow> Inl p
            | Inr t \<Rightarrow>
               (let config = config\<lparr>HttpPostTemplate := Some t\<rparr>;
                    config = (case Get input ''http'' ''content_type'' of
                                Some contentType \<Rightarrow>
                                  config\<lparr>HttpContentType := Some contentType\<rparr>
                              | None \<Rightarrow>
                                  config\<lparr>HttpContentType := Some ''application/json''\<rparr>)
                in Inr (''httpout'', config, errs)))
      else if outType = ''syslog''
      then Inr (''syslogout'', config\<lparr>OutputType := SyslogOutputType\<rparr>, errs)
      else if outType = ''kafka''
      then
        (let config = config\<lparr>OutputType := KafkaOutputType\<rparr>;
             config = (case Get input ''kafka'' ''brokers'' of
                         Some kafkaBrokers \<Rightarrow> config\<lparr>KafkaBrokers := Some kafkaBrokers\<rparr>
                       | None \<Rightarrow> config);
             config = (case Get input ''kafka'' ''topic_suffix'' of
                         Some kafkaTopicSuffix \<Rightarrow>
                           config\<lparr>KafkaTopicSuffix := Some kafkaTopicSuffix\<rparr>
                       | None \<Rightarrow> config)
         in Inr ([], config, errs))
      else if outType = ''splunk''
      then
        (let config = config\<lparr>OutputType := SplunkOutputType\<rparr>;
             config = (case Get input ''splunk'' ''hec_token'' of
                         Some token \<Rightarrow> config\<lparr>SplunkToken := Some token\<rparr>
                       | None \<Rightarrow> config)
         in case (case Get input ''splunk'' ''http_post_template'' of
                    Some postTemplate \<Rightarrow> template_Must (template_Parse w postTemplate)
                  | None \<Rightarrow>
                      if OutputFormat config = JSONOutputFormat
                      then Inr splunk_json_post_template
                      else Inr events_only_post_template) of
              Inl p \<Rightarrow> Inl p
            | Inr t \<Rightarrow>
               (let config = config\<lparr>HttpPostTemplate := Some t\<rparr>;
                    config = (case Get input ''http'' ''content_type'' of
                                Some contentType \<Rightarrow>
                                  config\<lparr>HttpContentType := Some contentType\<rparr>
                              | None \<Rightarrow>
                                  config\<lparr>HttpContentType := Some ''application/json''\<rparr>)
                in Inr (''splunkout'', config, errs)))
      else Inr ([], config, addErrorString errs (''Unknown output type: '' @ outType)))"

text \<open>Lines 536 to 570: the \<^verbatim>\<open>[audit]\<close> section; \<^verbatim>\<open>log.Panic\<close> when auditing is
  enabled without a \<^verbatim>\<open>redis_host\<close>.\<close>

definition ParseConfig_audit :: "ini_File \<Rightarrow> Configuration \<Rightarrow> panic + Configuration" where
  "ParseConfig_audit input config =
     (let config = (case Get input ''audit'' ''enabled'' of
                      Some val \<Rightarrow> (case strconv_ParseBool val of
                                     Some b \<Rightarrow> config\<lparr>AuditingEnabled := b\<rparr>
                                   | None \<Rightarrow> config)
                    | None \<Rightarrow> config)
      in if AuditingEnabled config = True
         then (case Get input ''audit'' ''redis_host'' of
                 None \<Rightarrow> Inl LogPanic
               | Some val \<Rightarrow>
                  (let config = config\<lparr>AuditRedisHost := val\<rparr>;
                       config = (case Get input ''audit'' ''redis_database_number'' of
                                   Some val \<Rightarrow>
                                     (case strconv_Atoi val of
                                        Some db_number \<Rightarrow>
                                          config\<lparr>AuditRedisDatabaseNumber := db_number\<rparr>
                                      | None \<Rightarrow> config)
                                 | None \<Rightarrow> config);
                       config = (case Get input ''audit'' ''pipeline_size'' of
                                   Some val \<Rightarrow>
                                     (case strconv_Atoi val of
                                        Some pipeline_size \<Rightarrow>
                                          config\<lparr>AuditPipelineSize := pipeline_size\<rparr>
                                      | None \<Rightarrow> config)
                                 | None \<Rightarrow> config)
                   in Inr config))
         else Inr config)"

text \<open>Lines 572 to 596: the destination parameter required by the output type, and
  \<^verbatim>\<open>use_raw_sensor_exchange\<close>.\<close>

definition ParseConfig_parameters ::
  "ini_File \<Rightarrow> string \<Rightarrow> string \<Rightarrow> Configuration \<Rightarrow> ConfigurationError
     \<Rightarrow> Configuration \<times> ConfigurationError" where
  "ParseConfig_parameters input outType parameterKey config errs =
     (let (config, errs) =
            (if length parameterKey > 0
             then (case Get input ''bridge'' parameterKey of
                     None \<Rightarrow>
                       (config,
                        addErrorString errs
                          (''Missing value for key '' @ parameterKey
                           @ '', required by output type '' @ outType))
                   | Some val \<Rightarrow> (config\<lparr>OutputParameters := val\<rparr>, errs))
             else (config, errs))
      in case Get input ''bridge'' ''use_raw_sensor_exchange'' of
           Some val \<Rightarrow>
             (case strconv_ParseBool val of
                Some boolval \<Rightarrow> (config\<lparr>UseRawSensorExchange := boolval\<rparr>, errs)
              | None \<Rightarrow>
                  (config,
                   addErrorString errs
                     ''Unknown value for 'use_raw_sensor_exchange': valid values are true, false, 1, 0''))
         | None \<Rightarrow> (config, errs))"

text \<open>Lines 598 to 643: the TLS settings, read from the section named after the output
  type.\<close>

definition ParseConfig_tls ::
  "ini_File \<Rightarrow> string \<Rightarrow> Configuration \<Rightarrow> ConfigurationError
     \<Rightarrow> Configuration \<times> ConfigurationError" where
  "ParseConfig_tls input outType config errs =
     (let config = (case Get input outType ''client_key'' of
                      Some clientKeyFilename \<Rightarrow> config\<lparr>TLSClientKey := Some clientKeyFilename\<rparr>
                    | None \<Rightarrow> config);
          config = (case Get input outType ''client_cert'' of
                      Some clientCertFilename \<Rightarrow>
                        config\<lparr>TLSClientCert := Some clientCertFilename\<rparr>
                    | None \<Rightarrow> config);
          config = (case Get input outType ''ca_cert'' of
                      Some caCertFilename \<Rightarrow> config\<lparr>TLSCACert := Some caCertFilename\<rparr>
                    | None \<Rightarrow> config);
          config = config\<lparr>TLSVerify := True\<rparr>;
          (config, errs) =
             (case Get input outType ''tls_verify'' of
                Some tlsVerify \<Rightarrow>
                  (case strconv_ParseBool tlsVerify of
                     Some boolval \<Rightarrow>
                       (if boolval = False then config\<lparr>TLSVerify := False\<rparr> else config, errs)
                   | None \<Rightarrow>
                       (config,
                        addErrorString errs
                          (''Unknown value for 'tls_verify': valid values are true, false, 1, 0. Default is 'true''
                           @ [CHR 0x27])))
              | None \<Rightarrow> (config, errs));
          config = config\<lparr>TLS12Only := True\<rparr>;
          (config, errs) =
             (case Get input outType ''insecure_tls'' of
                Some tlsInsecure \<Rightarrow>
                  (case strconv_ParseBool tlsInsecure of
                     Some boolval \<Rightarrow>
                       (if boolval = True then config\<lparr>TLS12Only := False\<rparr> else config, errs)
                   | None \<Rightarrow>
                       (config, addErrorString errs ''Unknown value for 'insecure_tls': '')
                  )
              | None \<Rightarrow> (config, errs));
          config = (case Get input outType ''server_cname'' of
                      Some serverCName \<Rightarrow> config\<lparr>TLSCName := Some serverCName\<rparr>
                    | None \<Rightarrow> config)
      in (config, errs))"

text \<open>Lines 647 to 692: the bundle settings, read from the section named after the
  output type. \<^verbatim>\<open>time.Duration(n) * time.Second\<close> is an int64 product.\<close>

definition ParseConfig_bundle ::
  "ini_File \<Rightarrow> string \<Rightarrow> Configuration \<Rightarrow> ConfigurationError
     \<Rightarrow> Configuration \<times> ConfigurationError" where
  "ParseConfig_bundle input outType config errs =
     (let config = (if outType = ''splunk'' then config\<lparr>UploadEmptyFiles := False\<rparr>
                    else config\<lparr>UploadEmptyFiles := True\<rparr>);
          (config, errs) =
             (case Get input outType ''upload_empty_files'' of
                Some sendEmptyFiles \<Rightarrow>
                  (case strconv_ParseBool sendEmptyFiles of
                     Some boolval \<Rightarrow>
                       (if boolval = False then config\<lparr>UploadEmptyFiles := False\<rparr>
                        else config, errs)
                   | None \<Rightarrow>
                       (config,
                        addErrorString errs
                          (''Unknown value for 'upload_empty_files': valid values are true, false, 1, 0. Default is 'true''
                           @ [CHR 0x27])))
              | None \<Rightarrow> (config, errs));
          config = (if OutputFormat config = JSONOutputFormat
                    then config\<lparr>CommaSeparateEvents := True\<rparr>
                    else config\<lparr>CommaSeparateEvents := False\<rparr>);
          config = config\<lparr>BundleSizeMax := 10 * 1024 * 1024\<rparr>;
          config = (case Get input outType ''bundle_size_max'' of
                      Some bundleSizeMax \<Rightarrow>
                        (case strconv_ParseInt bundleSizeMax of
                           Some bundleSizeMax \<Rightarrow> config\<lparr>BundleSizeMax := bundleSizeMax\<rparr>
                         | None \<Rightarrow> config)
                    | None \<Rightarrow> config);
          config = config\<lparr>BundleSendTimeout := 5 * time_Minute\<rparr>;
          config = (case Get input outType ''bundle_send_timeout'' of
                      Some bundleSendTimeout \<Rightarrow>
                        (case strconv_ParseInt bundleSendTimeout of
                           Some bundleSendTimeout \<Rightarrow>
                             config\<lparr>BundleSendTimeout :=
                                      wrap_int64 (bundleSendTimeout * time_Second)\<rparr>
                         | None \<Rightarrow> config)
                    | None \<Rightarrow> config)
      in (config, errs))"

text \<open>Lines 694 to 711: the API settings of the \<^verbatim>\<open>[bridge]\<close> section.\<close>

definition ParseConfig_api ::
  "ini_File \<Rightarrow> Configuration \<Rightarrow> ConfigurationError
     \<Rightarrow> Configuration \<times> ConfigurationError" where
  "ParseConfig_api input config errs =
     (let (config, errs) =
            (case Get input ''bridge'' ''api_verify_ssl'' of
               Some val \<Rightarrow>
                 (case strconv_ParseBool val of
                    Some b \<Rightarrow> (config\<lparr>CbAPIVerifySSL := b\<rparr>, errs)
                  | None \<Rightarrow>
                      (config\<lparr>CbAPIVerifySSL := False\<rparr>,
                       addErrorString errs
                         (''Unknown value for 'api_verify_ssl': valid values are true, false, 1, 0. Default is 'false''
                          @ [CHR 0x27])))
             | None \<Rightarrow> (config, errs));
          config = (case Get input ''bridge'' ''api_token'' of
                      Some val \<Rightarrow> config\<lparr>CbAPIToken := val, PerformFeedPostprocessing := True\<rparr>
                    | None \<Rightarrow> config);
          config = config\<lparr>CbAPIProxyUrl := []\<rparr>;
          config = (case Get input ''bridge'' ''api_proxy_url'' of
                      Some val \<Rightarrow> config\<lparr>CbAPIProxyUrl := val\<rparr>
                    | None \<Rightarrow> config)
      in (config, errs))"

text \<open>The body of ParseConfig once the file is loaded, and ParseConfig itself. The result
  is the pair the Go function returns: the configuration and the error (\<open>None\<close> for
  \<^verbatim>\<open>nil\<close>).\<close>

definition ParseConfig_input ::
  "config_world \<Rightarrow> ini_File \<Rightarrow> panic + (Configuration \<times> config_error option)" where
  "ParseConfig_input w input =
     (let config = Configuration_zero;
          errs = \<lparr>Errors = [], Empty = True\<rparr>;
          (config, errs) = ParseConfig_bridge w input config errs
      in case Get input ''bridge'' ''output_type'' of
           None \<Rightarrow>
             Inr (config, Some (ConfigurationErr (addErrorString errs ''No output type specified'')))
         | Some outType \<Rightarrow>
            (let outType = strings_ToLower w (strings_TrimSpace w outType)
             in case ParseConfig_output_type w input outType config errs of
                  Inl p \<Rightarrow> Inl p
                | Inr (parameterKey, config, errs) \<Rightarrow>
                   (case ParseConfig_audit input config of
                      Inl p \<Rightarrow> Inl p
                    | Inr config \<Rightarrow>
                       (let (config, errs) =
                              ParseConfig_parameters input outType parameterKey config errs;
                            (config, errs) = ParseConfig_tls input outType config errs
                        in case configureTLS w config of
                             Inl p \<Rightarrow> Inl p
                           | Inr tlsConfig \<Rightarrow>
                              (let config = config\<lparr>TLSConfig := Some tlsConfig\<rparr>;
                                   (config, errs) = ParseConfig_bundle input outType config errs;
                                   (config, errs) = ParseConfig_api input config errs;
                                   config = parseEventTypes w input config;
                                   config = parseMonitoredLogs input config
                               in if \<not> Empty errs
                                  then Inr (config, Some (ConfigurationErr errs))
                                  else Inr (config, None))))))"

definition ParseConfig ::
  "config_world \<Rightarrow> string \<Rightarrow> panic + (Configuration \<times> config_error option)" where
  "ParseConfig w fn =
     (case ini_LoadFile w fn of
        Inl err \<Rightarrow> Inr (Configuration_zero, Some (IniLoadError err))
      | Inr input \<Rightarrow> ParseConfig_input w input)"

section \<open>Configuration files and worlds used to state and exercise the properties\<close>

text \<open>A configuration file with one key set, and with one key removed.\<close>

definition ini_set :: "ini_File \<Rightarrow> string \<Rightarrow> string \<Rightarrow> string \<Rightarrow> ini_File" where
  "ini_set f section key v =
     f(section \<mapsto> (case f section of None \<Rightarrow> Map.empty | Some s \<Rightarrow> s)(key \<mapsto> v))"

definition ini_del :: "ini_File \<Rightarrow> string \<Rightarrow> string \<Rightarrow> ini_File" where
  "ini_del f section key =
     (case f section of None \<Rightarrow> f | Some s \<Rightarrow> f(section \<mapsto> s(key := None)))"

text \<open>The output type as ParseConfig compares it: trimmed and lower-cased.\<close>

definition normalized :: "config_world \<Rightarrow> string \<Rightarrow> string" where
  "normalized w v = strings_ToLower w (strings_TrimSpace w v)"

text \<open>The output types that require a destination parameter, with its key in
  \<^verbatim>\<open>[bridge]\<close>.\<close>

definition parameter_keys :: "(string \<times> string) list" where
  "parameter_keys =
     [(''file'', ''outfile''), (''tcp'', ''tcpout''), (''udp'', ''udpout''), (''s3'', ''s3out''),
      (''http'', ''httpout''), (''syslog'', ''syslogout''), (''splunk'', ''splunkout'')]"

text \<open>A machine on which only the forwarder's configuration file exists, holding \<open>conf\<close>.
  The example files are ASCII, so the two Unicode functions are never consulted.\<close>

definition example_world :: "ini_File \<Rightarrow> config_world" where
  "example_world conf =
     \<lparr>ini_LoadFile =
        (\<lambda>fn. if fn = ''/etc/cb/integrations/event-forwarder/cb-event-forwarder.conf''
              then Inr conf else Inl ''open: no such file or directory''),
      tls_LoadX509KeyPair = (\<lambda>cert key. Inl ''open: no such file or directory''),
      ioutil_ReadFile = (\<lambda>path. Inl ''open: no such file or directory''),
      template_Parse = (\<lambda>text. Inl ''template: unexpected action''),
      unicode_ToLower = (\<lambda>s. s),
      unicode_TrimSpace = (\<lambda>s. s)\<rparr>"

definition example_path :: string where
  "example_path = ''/etc/cb/integrations/event-forwarder/cb-event-forwarder.conf''"

definition http_conf :: ini_File where
  "http_conf =
     [''bridge'' \<mapsto> [''rabbit_mq_password'' \<mapsto> ''secret'', ''output_type'' \<mapsto> ''http'',
                     ''httpout'' \<mapsto> ''https://siem.example/ingest''],
      ''http'' \<mapsto> [''authorization_token'' \<mapsto> ''Bearer 0123abcd'']]"


definition splunk_conf :: ini_File where
  "splunk_conf =
     [''bridge'' \<mapsto> [''rabbit_mq_password'' \<mapsto> ''secret'', ''output_type'' \<mapsto> '' Splunk'',
                     ''splunkout'' \<mapsto> ''https://hec.example:8088/services/collector''],
      ''splunk'' \<mapsto> [''hec_token'' \<mapsto> ''0123abcd'', ''upload_empty_files'' \<mapsto> ''true'',
                     ''bundle_send_timeout'' \<mapsto> ''60'', ''content_type'' \<mapsto> ''text/csv''],
      ''http'' \<mapsto> [''content_type'' \<mapsto> ''text/plain'']]"

definition splunk_conf_bad_timeout :: ini_File where
  "splunk_conf_bad_timeout = ini_set splunk_conf ''splunk'' ''bundle_send_timeout'' ''5m''"

definition splunk_conf_long_timeout :: ini_File where
  "splunk_conf_long_timeout =
     ini_set splunk_conf ''splunk'' ''bundle_send_timeout'' ''9223372037''"

text \<open>A file that spells the output type SPLUNK with the Kelvin sign (U+212A, in UTF-8 the
  bytes E2 84 AA) for its last letter, on a machine whose Unicode tables lower-case that
  spelling to splunk, as Go's do.\<close>

definition kelvin_SPLUNK :: string where
  "kelvin_SPLUNK = ''SPLUN'' @ [CHR 0xE2, CHR 0x84, CHR 0xAA]"

definition kelvin_conf :: ini_File where
  "kelvin_conf = ini_set splunk_conf ''bridge'' ''output_type'' kelvin_SPLUNK"

definition kelvin_world :: config_world where
  "kelvin_world =
     (example_world kelvin_conf)
       \<lparr>unicode_ToLower := (\<lambda>s. if s = kelvin_SPLUNK then ''splunk'' else s)\<rparr>"

text \<open>Configurations as ParseConfig leaves the fields the behaviours read, and the
  behaviours Initialize makes of them.\<close>

definition http_config :: Configuration where
  "http_config =
     Configuration_zero\<lparr>OutputType := HttpOutputType, OutputFormat := JSONOutputFormat,
        HttpAuthorizationToken := Some ''Bearer 0123abcd'',
        HttpPostTemplate := Some http_json_post_template,
        HttpContentType := Some ''application/json''\<rparr>"

definition splunk_config :: Configuration where
  "splunk_config =
     Configuration_zero\<lparr>OutputType := SplunkOutputType, OutputFormat := JSONOutputFormat,
        SplunkToken := Some ''0123abcd'',
        HttpPostTemplate := Some splunk_json_post_template,
        HttpContentType := Some ''application/json''\<rparr>"

definition http_behavior :: "string \<Rightarrow> HttpBehavior" where
  "http_behavior d =
     \<lparr>dest = d,
      headers = [''Authorization'' \<mapsto> ''Bearer 0123abcd'', ''Content-Type'' \<mapsto> ''application/json''],
      client = \<lparr>TLSClientConfig = None\<rparr>,
      httpPostTemplate = Some http_json_post_template,
      firstEventTemplate = [TDot],
      subsequentEventTemplate = [TText ''\<newline>, '', TDot]\<rparr>"

definition splunk_behavior :: "string \<Rightarrow> SplunkBehavior" where
  "splunk_behavior d =
     \<lparr>splunk_dest = d,
      splunk_headers = [''Authorization'' \<mapsto> ''Splunk 0123abcd'',
                        ''Content-Type'' \<mapsto> ''application/json''],
      splunk_client = \<lparr>TLSClientConfig = None\<rparr>,
      splunk_httpPostTemplate = Some splunk_json_post_template,
      splunk_firstEventTemplate = [TDot],
      splunk_subsequentEventTemplate = [TDot]\<rparr>"

text \<open>A network with one host that refuses connections, one that answers 503 and one
  that answers 200; every URL is well formed.\<close>

definition example_network :: http_world where
  "example_network =
     \<lparr>http_NewRequest = (\<lambda>method url. None),
      client_Do =
        (\<lambda>c request.
           if URL request = ''https://down.example/'' then Inl ''dial tcp: connection refused''
           else if URL request = ''https://busy.example/''
           then Inr \<lparr>Status = ''503 Service Unavailable'', StatusCode = 503,
                     Body = ''try later''\<rparr>
           else Inr \<lparr>Status = ''200 OK'', StatusCode = 200, Body = []\<rparr>)\<rparr>"

definition file_abc :: os_File where
  "file_abc = \<lparr>Stat = Inr 5, file_records = [''a'', ''b'', ''c'']\<rparr>"

text \<open>An HTTP configuration whose authorization token is a bare token, one without a
  token, the behaviours Initialize makes of them, and a server that answers 200 to a
  request whose Authorization header is the expected one and 401 to any other.\<close>

definition bare_token_config :: Configuration where
  "bare_token_config = http_config\<lparr>HttpAuthorizationToken := Some ''0123abcd''\<rparr>"

definition bare_token_behavior :: HttpBehavior where
  "bare_token_behavior =
     \<lparr>dest = ''https://siem.example/ingest'',
      headers = [''Authorization'' \<mapsto> ''0123abcd'', ''Content-Type'' \<mapsto> ''application/json''],
      client = \<lparr>TLSClientConfig = None\<rparr>,
      httpPostTemplate = Some http_json_post_template,
      firstEventTemplate = [TDot],
      subsequentEventTemplate = [TText ''\<newline>, '', TDot]\<rparr>"

definition no_token_config :: Configuration where
  "no_token_config = http_config\<lparr>HttpAuthorizationToken := None, SplunkToken := None\<rparr>"

definition no_token_behavior :: HttpBehavior where
  "no_token_behavior =
     \<lparr>dest = ''https://siem.example/ingest'',
      headers = [''Content-Type'' \<mapsto> ''application/json''],
      client = \<lparr>TLSClientConfig = None\<rparr>,
      httpPostTemplate = Some http_json_post_template,
      firstEventTemplate = [TDot],
      subsequentEventTemplate = [TText ''\<newline>, '', TDot]\<rparr>"

definition no_token_splunk_behavior :: SplunkBehavior where
  "no_token_splunk_behavior =
     \<lparr>splunk_dest = ''https://hec.example:8088/services/collector'',
      splunk_headers = [''Content-Type'' \<mapsto> ''application/json''],
      splunk_client = \<lparr>TLSClientConfig = None\<rparr>,
      splunk_httpPostTemplate = Some http_json_post_template,
      splunk_firstEventTemplate = [TDot],
      splunk_subsequentEventTemplate = [TDot]\<rparr>"

definition token_checking_network :: "string option \<Rightarrow> http_world" where
  "token_checking_network expected =
     \<lparr>http_NewRequest = (\<lambda>method url. None),
      client_Do =
        (\<lambda>c request.
           if Header request ''Authorization'' = expected
           then Inr \<lparr>Status = ''200 OK'', StatusCode = 200, Body = []\<rparr>
           else Inr \<lparr>Status = ''401 Unauthorized'', StatusCode = 401, Body = []\<rparr>)\<rparr>"

text \<open>Groups of fields that the later blocks of ParseConfig leave alone, and what it means
  that a block keeps the errors collected so far.\<close>

definition bundle_settings :: "Configuration \<Rightarrow> bool \<times> bool \<times> int \<times> int" where
  "bundle_settings c =
     (UploadEmptyFiles c, CommaSeparateEvents c, BundleSendTimeout c, BundleSizeMax c)"

definition http_settings ::
  "Configuration \<Rightarrow> output_format \<times> string option \<times> post_template option \<times> string option
     \<times> string option" where
  "http_settings c =
     (OutputFormat c, HttpAuthorizationToken c, HttpPostTemplate c, HttpContentType c,
      SplunkToken c)"

definition errors_kept :: "ConfigurationError \<Rightarrow> ConfigurationError \<Rightarrow> bool" where
  "errors_kept e e' = (set (Errors e) \<subseteq> set (Errors e') \<and> (Empty e' \<longrightarrow> Empty e))"

section \<open>Properties of Upload\<close>

lemma HttpBehavior_Upload_cases:
  assumes "http_NewRequest w ''POST'' (dest this) = None"
      and "httpPostTemplate this = Some t"
  shows "HttpBehavior_Upload w this fn fp =
     (case client_Do w (client this) (HttpBehavior_request this t fn fp) of
        Inl err \<Rightarrow> Inr \<lparr>fileName = fn, result = Some err, status = 0\<rparr>
      | Inr resp \<Rightarrow>
         if StatusCode resp \<noteq> 200
         then Inr \<lparr>fileName = fn,
                   result = Some (''HTTP request failed: Error code '' @ Status resp @ ''\<newline>'' @ Body resp),
                   status = StatusCode resp\<rparr>
         else Inr \<lparr>fileName = fn, result = None, status = 200\<rparr>)"
  using assms by (simp add: HttpBehavior_Upload_def Let_def split: sum.splits)

lemma SplunkBehavior_Upload_cases:
  assumes "http_NewRequest w ''POST'' (splunk_dest this) = None"
      and "splunk_httpPostTemplate this = Some t"
  shows "SplunkBehavior_Upload w this fn fp =
     (case client_Do w (splunk_client this) (SplunkBehavior_request this t fn fp) of
        Inl err \<Rightarrow> Inr \<lparr>fileName = fn, result = Some err, status = 0\<rparr>
      | Inr resp \<Rightarrow>
         if StatusCode resp \<noteq> 200
         then Inr \<lparr>fileName = fn,
                   result = Some (''HTTP request failed: Error code '' @ Status resp @ ''\<newline>'' @ Body resp),
                   status = StatusCode resp\<rparr>
         else Inr \<lparr>fileName = fn, result = None, status = 200\<rparr>)"
  using assms by (simp add: SplunkBehavior_Upload_def Let_def split: sum.splits)

text \<open>
  C1. Whenever Upload reaches the POST (the request could be built and the behaviour has a
  post template), both behaviours return an UploadStatus; its status is 200 if and only if
  the POST received a response with status code 200; when the client call fails the status
  is 0 and the result is the client's error; when the response has any other status code,
  the status is that code and the result is an error with a non-empty text.
\<close>

theorem upload_status_contract:
  "(http_NewRequest w ''POST'' (dest h) = None \<and> httpPostTemplate h = Some t \<longrightarrow>
      (\<exists>st. HttpBehavior_Upload w h fn fp = Inr st
         \<and> (status st = 200 \<longleftrightarrow>
              (\<exists>resp. client_Do w (client h) (HttpBehavior_request h t fn fp) = Inr resp
                      \<and> StatusCode resp = 200))
         \<and> (\<forall>err. client_Do w (client h) (HttpBehavior_request h t fn fp) = Inl err
               \<longrightarrow> status st = 0 \<and> result st = Some err)
         \<and> (\<forall>resp. client_Do w (client h) (HttpBehavior_request h t fn fp) = Inr resp
                    \<and> StatusCode resp \<noteq> 200
               \<longrightarrow> status st = StatusCode resp \<and> (\<exists>detail. result st = Some detail \<and> detail \<noteq> []))))
   \<and> (http_NewRequest w ''POST'' (splunk_dest s) = None \<and> splunk_httpPostTemplate s = Some t' \<longrightarrow>
      (\<exists>st. SplunkBehavior_Upload w s fn fp = Inr st
         \<and> (status st = 200 \<longleftrightarrow>
              (\<exists>resp. client_Do w (splunk_client s) (SplunkBehavior_request s t' fn fp) = Inr resp
                      \<and> StatusCode resp = 200))
         \<and> (\<forall>err. client_Do w (splunk_client s) (SplunkBehavior_request s t' fn fp) = Inl err
               \<longrightarrow> status st = 0 \<and> result st = Some err)
         \<and> (\<forall>resp. client_Do w (splunk_client s) (SplunkBehavior_request s t' fn fp) = Inr resp
                    \<and> StatusCode resp \<noteq> 200
               \<longrightarrow> status st = StatusCode resp \<and> (\<exists>detail. result st = Some detail \<and> detail \<noteq> []))))"
proof (intro conjI impI)
  assume a: "http_NewRequest w ''POST'' (dest h) = None \<and> httpPostTemplate h = Some t"
  show "\<exists>st. HttpBehavior_Upload w h fn fp = Inr st
         \<and> (status st = 200 \<longleftrightarrow>
              (\<exists>resp. client_Do w (client h) (HttpBehavior_request h t fn fp) = Inr resp
                      \<and> StatusCode resp = 200))
         \<and> (\<forall>err. client_Do w (client h) (HttpBehavior_request h t fn fp) = Inl err
               \<longrightarrow> status st = 0 \<and> result st = Some err)
         \<and> (\<forall>resp. client_Do w (client h) (HttpBehavior_request h t fn fp) = Inr resp
                    \<and> StatusCode resp \<noteq> 200
               \<longrightarrow> status st = StatusCode resp \<and> (\<exists>detail. result st = Some detail \<and> detail \<noteq> []))"
  proof (cases "client_Do w (client h) (HttpBehavior_request h t fn fp)")
    case (Inl err)
    with a show ?thesis by (simp add: HttpBehavior_Upload_cases)
  next
    case (Inr resp)
    with a show ?thesis by (simp add: HttpBehavior_Upload_cases)
  qed
next
  assume a: "http_NewRequest w ''POST'' (splunk_dest s) = None \<and> splunk_httpPostTemplate s = Some t'"
  show "\<exists>st. SplunkBehavior_Upload w s fn fp = Inr st
         \<and> (status st = 200 \<longleftrightarrow>
              (\<exists>resp. client_Do w (splunk_client s) (SplunkBehavior_request s t' fn fp) = Inr resp
                      \<and> StatusCode resp = 200))
         \<and> (\<forall>err. client_Do w (splunk_client s) (SplunkBehavior_request s t' fn fp) = Inl err
               \<longrightarrow> status st = 0 \<and> result st = Some err)
         \<and> (\<forall>resp. client_Do w (splunk_client s) (SplunkBehavior_request s t' fn fp) = Inr resp
                    \<and> StatusCode resp \<noteq> 200
               \<longrightarrow> status st = StatusCode resp \<and> (\<exists>detail. result st = Some detail \<and> detail \<noteq> []))"
  proof (cases "client_Do w (splunk_client s) (SplunkBehavior_request s t' fn fp)")
    case (Inl err)
    with a show ?thesis by (simp add: SplunkBehavior_Upload_cases)
  next
    case (Inr resp)
    with a show ?thesis by (simp add: SplunkBehavior_Upload_cases)
  qed
qed

lemmas example_upload_defs = example_network_def http_behavior_def splunk_behavior_def
  file_abc_def HttpBehavior_request_def SplunkBehavior_request_def

theorem upload_status_contract_witness:
  "http_NewRequest example_network ''POST'' (dest (http_behavior ''https://down.example/'')) = None
   \<and> httpPostTemplate (http_behavior ''https://down.example/'') = Some http_json_post_template
   \<and> HttpBehavior_Upload example_network (http_behavior ''https://down.example/'') ''bundle.json'' file_abc
       = Inr \<lparr>fileName = ''bundle.json'', result = Some ''dial tcp: connection refused'', status = 0\<rparr>
   \<and> http_NewRequest example_network ''POST'' (splunk_dest (splunk_behavior ''https://busy.example/'')) = None
   \<and> splunk_httpPostTemplate (splunk_behavior ''https://busy.example/'') = Some splunk_json_post_template
   \<and> (\<exists>st. SplunkBehavior_Upload example_network (splunk_behavior ''https://busy.example/'') ''bundle.json'' file_abc = Inr st
          \<and> status st = 503 \<and> result st \<noteq> None \<and> result st \<noteq> Some [])
   \<and> HttpBehavior_Upload example_network (http_behavior ''https://siem.example/ingest'') ''bundle.json'' file_abc
       = Inr \<lparr>fileName = ''bundle.json'', result = None, status = 200\<rparr>"
  using upload_status_contract [of example_network "http_behavior ''https://down.example/''"
          http_json_post_template "''bundle.json''" file_abc
          "splunk_behavior ''https://busy.example/''" splunk_json_post_template]
        upload_status_contract [of example_network "http_behavior ''https://siem.example/ingest''"
          http_json_post_template "''bundle.json''" file_abc
          "splunk_behavior ''https://busy.example/''" splunk_json_post_template]
  by (simp add: example_upload_defs HttpBehavior_Upload_def SplunkBehavior_Upload_def)

text \<open>
  C6 as stated fails: on a 503 response the detail is not the status line, a newline and
  the body alone.
\<close>

theorem failure_detail_counterexample:
  \<open>client_Do example_network (client (http_behavior ''https://busy.example/''))
      (HttpBehavior_request (http_behavior ''https://busy.example/'') http_json_post_template
         ''bundle.json'' file_abc)
     = Inr \<lparr>Status = ''503 Service Unavailable'', StatusCode = 503, Body = ''try later''\<rparr>
   \<and> HttpBehavior_Upload example_network (http_behavior ''https://busy.example/'') ''bundle.json'' file_abc
       = Inr \<lparr>fileName = ''bundle.json'',
               result = Some ''HTTP request failed: Error code 503 Service Unavailable\<newline>try later'',
               status = 503\<rparr>
   \<and> ''HTTP request failed: Error code 503 Service Unavailable\<newline>try later''
       \<noteq> ''503 Service Unavailable'' @ ''\<newline>'' @ ''try later''\<close>
  by (simp add: example_upload_defs HttpBehavior_Upload_def)

text \<open>
  C6, amended. For every upload that receives a response whose status code is not 200, the
  error of the returned UploadStatus is the text \<^verbatim>\<open>HTTP request failed: Error code \<close>
  followed by the response's status, a newline and the response body, and its status is
  the response's status code.
\<close>

theorem failure_detail:
  "(http_NewRequest w ''POST'' (dest h) = None \<and> httpPostTemplate h = Some t
      \<and> client_Do w (client h) (HttpBehavior_request h t fn fp) = Inr resp
      \<and> StatusCode resp \<noteq> 200
    \<longrightarrow> HttpBehavior_Upload w h fn fp
        = Inr \<lparr>fileName = fn,
                result = Some (''HTTP request failed: Error code '' @ Status resp @ ''\<newline>'' @ Body resp),
                status = StatusCode resp\<rparr>)
   \<and> (http_NewRequest w ''POST'' (splunk_dest s) = None \<and> splunk_httpPostTemplate s = Some t'
      \<and> client_Do w (splunk_client s) (SplunkBehavior_request s t' fn fp) = Inr resp'
      \<and> StatusCode resp' \<noteq> 200
    \<longrightarrow> SplunkBehavior_Upload w s fn fp
        = Inr \<lparr>fileName = fn,
                result = Some (''HTTP request failed: Error code '' @ Status resp' @ ''\<newline>'' @ Body resp'),
                status = StatusCode resp'\<rparr>)"
  by (simp add: HttpBehavior_Upload_cases SplunkBehavior_Upload_cases)

theorem failure_detail_witness:
  \<open>HttpBehavior_Upload example_network (http_behavior ''https://busy.example/'') ''bundle.json'' file_abc
     = Inr \<lparr>fileName = ''bundle.json'',
             result = Some ''HTTP request failed: Error code 503 Service Unavailable\<newline>try later'',
             status = 503\<rparr>
   \<and> SplunkBehavior_Upload example_network (splunk_behavior ''https://busy.example/'') ''bundle.json'' file_abc
     = Inr \<lparr>fileName = ''bundle.json'',
             result = Some ''HTTP request failed: Error code 503 Service Unavailable\<newline>try later'',
             status = 503\<rparr>\<close>
  using failure_detail [of example_network "http_behavior ''https://busy.example/''"
          http_json_post_template "''bundle.json''" file_abc
          "\<lparr>Status = ''503 Service Unavailable'', StatusCode = 503, Body = ''try later''\<rparr>"
          "splunk_behavior ''https://busy.example/''" splunk_json_post_template
          "\<lparr>Status = ''503 Service Unavailable'', StatusCode = 503, Body = ''try later''\<rparr>"]
  by (simp add: example_upload_defs HttpBehavior_Upload_def SplunkBehavior_Upload_def)

section \<open>Properties of Initialize and of the rendered request\<close>

lemma HttpBehavior_Initialize_Inr:
  "HttpBehavior_Initialize cfg d = Inr (h, e) \<Longrightarrow>
     e = None \<and> dest h = d \<and> httpPostTemplate h = HttpPostTemplate cfg
     \<and> firstEventTemplate h = [TDot]
     \<and> subsequentEventTemplate h = [TText ''\<newline>, '', TDot]
     \<and> headers h ''Authorization'' = HttpAuthorizationToken cfg"
  by (auto simp add: HttpBehavior_Initialize_def Let_def split: option.splits)

lemma SplunkBehavior_Initialize_Inr:
  "SplunkBehavior_Initialize cfg d = Inr (s, e) \<Longrightarrow>
     e = None \<and> splunk_dest s = d \<and> splunk_httpPostTemplate s = HttpPostTemplate cfg
     \<and> splunk_firstEventTemplate s = [TDot]
     \<and> splunk_subsequentEventTemplate s = [TDot]
     \<and> splunk_headers s ''Authorization''
         = map_option (\<lambda>token. ''Splunk '' @ token) (SplunkToken cfg)"
  by (auto simp add: SplunkBehavior_Initialize_def Let_def split: option.splits)

text \<open>
  C7 as stated fails: with the bare token 0123abcd configured, the HTTP behaviour's upload
  hands the client a request whose Authorization header is 0123abcd, with no Bearer or other
  scheme before it, and a server that expects the bearer form answers 401.
\<close>

theorem authorization_header_counterexample:
  \<open>HttpAuthorizationToken bare_token_config = Some ''0123abcd''
   \<and> HttpBehavior_Initialize bare_token_config ''https://siem.example/ingest''
       = Inr (bare_token_behavior, None)
   \<and> Header (HttpBehavior_request bare_token_behavior http_json_post_template
                ''bundle.json'' file_abc) ''Authorization''
       = Some ''0123abcd''
   \<and> ''0123abcd'' \<noteq> ''Bearer '' @ ''0123abcd''
   \<and> HttpBehavior_Upload (token_checking_network (Some ''Bearer 0123abcd''))
         bare_token_behavior ''bundle.json'' file_abc
       = Inr \<lparr>fileName = ''bundle.json'',
               result = Some ''HTTP request failed: Error code 401 Unauthorized\<newline>'',
               status = 401\<rparr>\<close>
  by (simp add: bare_token_config_def bare_token_behavior_def token_checking_network_def
      http_config_def Configuration_zero_def HttpBehavior_Initialize_def
      HttpBehavior_Upload_def HttpBehavior_request_def fun_eq_iff)

text \<open>
  C7, amended. For a behaviour that Initialize has set up, every upload that reaches the
  POST returns exactly the outcome of \<^verbatim>\<open>client.Do\<close> on one request, and that request
  carries the configured credential in its Authorization header: for the HTTP behaviour the
  configured token verbatim (no scheme is added), for the Splunk behaviour the word Splunk,
  a space and the token. Without a configured credential that request has no Authorization
  header.
\<close>

theorem authorization_header:
  "(HttpBehavior_Initialize cfg d = Inr (h, e) \<and> httpPostTemplate h = Some t
      \<and> http_NewRequest w ''POST'' d = None \<longrightarrow>
      HttpBehavior_Upload w h fn fp =
        (case client_Do w (client h) (HttpBehavior_request h t fn fp) of
           Inl err \<Rightarrow> Inr \<lparr>fileName = fn, result = Some err, status = 0\<rparr>
         | Inr resp \<Rightarrow>
            if StatusCode resp \<noteq> 200
            then Inr \<lparr>fileName = fn,
                      result = Some (''HTTP request failed: Error code '' @ Status resp
                                     @ ''\<newline>'' @ Body resp),
                      status = StatusCode resp\<rparr>
            else Inr \<lparr>fileName = fn, result = None, status = 200\<rparr>)
      \<and> (\<forall>token. HttpAuthorizationToken cfg = Some token \<longrightarrow>
            Header (HttpBehavior_request h t fn fp) ''Authorization'' = Some token)
      \<and> (HttpAuthorizationToken cfg = None \<longrightarrow>
            Header (HttpBehavior_request h t fn fp) ''Authorization'' = None))
   \<and> (SplunkBehavior_Initialize cfg d = Inr (s, e') \<and> splunk_httpPostTemplate s = Some t
      \<and> http_NewRequest w ''POST'' d = None \<longrightarrow>
      SplunkBehavior_Upload w s fn fp =
        (case client_Do w (splunk_client s) (SplunkBehavior_request s t fn fp) of
           Inl err \<Rightarrow> Inr \<lparr>fileName = fn, result = Some err, status = 0\<rparr>
         | Inr resp \<Rightarrow>
            if StatusCode resp \<noteq> 200
            then Inr \<lparr>fileName = fn,
                      result = Some (''HTTP request failed: Error code '' @ Status resp
                                     @ ''\<newline>'' @ Body resp),
                      status = StatusCode resp\<rparr>
            else Inr \<lparr>fileName = fn, result = None, status = 200\<rparr>)
      \<and> (\<forall>token. SplunkToken cfg = Some token \<longrightarrow>
            Header (SplunkBehavior_request s t fn fp) ''Authorization''
              = Some (''Splunk '' @ token))
      \<and> (SplunkToken cfg = None \<longrightarrow>
            Header (SplunkBehavior_request s t fn fp) ''Authorization'' = None))"
proof (rule conjI; rule impI)
  assume a: "HttpBehavior_Initialize cfg d = Inr (h, e) \<and> httpPostTemplate h = Some t
      \<and> http_NewRequest w ''POST'' d = None"
  then have i: "dest h = d" "headers h ''Authorization'' = HttpAuthorizationToken cfg"
    using HttpBehavior_Initialize_Inr [of cfg d h e] by simp_all
  from a i have u: "HttpBehavior_Upload w h fn fp =
        (case client_Do w (client h) (HttpBehavior_request h t fn fp) of
           Inl err \<Rightarrow> Inr \<lparr>fileName = fn, result = Some err, status = 0\<rparr>
         | Inr resp \<Rightarrow>
            if StatusCode resp \<noteq> 200
            then Inr \<lparr>fileName = fn,
                      result = Some (''HTTP request failed: Error code '' @ Status resp
                                     @ ''\<newline>'' @ Body resp),
                      status = StatusCode resp\<rparr>
            else Inr \<lparr>fileName = fn, result = None, status = 200\<rparr>)"
    by (simp add: HttpBehavior_Upload_cases)
  from i have "Header (HttpBehavior_request h t fn fp) ''Authorization''
                 = HttpAuthorizationToken cfg"
    by (simp add: HttpBehavior_request_def)
  with u show "HttpBehavior_Upload w h fn fp =
        (case client_Do w (client h) (HttpBehavior_request h t fn fp) of
           Inl err \<Rightarrow> Inr \<lparr>fileName = fn, result = Some err, status = 0\<rparr>
         | Inr resp \<Rightarrow>
            if StatusCode resp \<noteq> 200
            then Inr \<lparr>fileName = fn,
                      result = Some (''HTTP request failed: Error code '' @ Status resp
                                     @ ''\<newline>'' @ Body resp),
                      status = StatusCode resp\<rparr>
            else Inr \<lparr>fileName = fn, result = None, status = 200\<rparr>)
      \<and> (\<forall>token. HttpAuthorizationToken cfg = Some token \<longrightarrow>
            Header (HttpBehavior_request h t fn fp) ''Authorization'' = Some token)
      \<and> (HttpAuthorizationToken cfg = None \<longrightarrow>
            Header (HttpBehavior_request h t fn fp) ''Authorization'' = None)"
    by simp
next
  assume a: "SplunkBehavior_Initialize cfg d = Inr (s, e') \<and> splunk_httpPostTemplate s = Some t
      \<and> http_NewRequest w ''POST'' d = None"
  then have i: "splunk_dest s = d"
    "splunk_headers s ''Authorization'' = map_option (\<lambda>token. ''Splunk '' @ token) (SplunkToken cfg)"
    using SplunkBehavior_Initialize_Inr [of cfg d s e'] by simp_all
  from a i have u: "SplunkBehavior_Upload w s fn fp =
        (case client_Do w (splunk_client s) (SplunkBehavior_request s t fn fp) of
           Inl err \<Rightarrow> Inr \<lparr>fileName = fn, result = Some err, status = 0\<rparr>
         | Inr resp \<Rightarrow>
            if StatusCode resp \<noteq> 200
            then Inr \<lparr>fileName = fn,
                      result = Some (''HTTP request failed: Error code '' @ Status resp
                                     @ ''\<newline>'' @ Body resp),
                      status = StatusCode resp\<rparr>
            else Inr \<lparr>fileName = fn, result = None, status = 200\<rparr>)"
    by (simp add: SplunkBehavior_Upload_cases)
  from i have "Header (SplunkBehavior_request s t fn fp) ''Authorization''
                 = map_option (\<lambda>token. ''Splunk '' @ token) (SplunkToken cfg)"
    by (simp add: SplunkBehavior_request_def)
  with u show "SplunkBehavior_Upload w s fn fp =
        (case client_Do w (splunk_client s) (SplunkBehavior_request s t fn fp) of
           Inl err \<Rightarrow> Inr \<lparr>fileName = fn, result = Some err, status = 0\<rparr>
         | Inr resp \<Rightarrow>
            if StatusCode resp \<noteq> 200
            then Inr \<lparr>fileName = fn,
                      result = Some (''HTTP request failed: Error code '' @ Status resp
                                     @ ''\<newline>'' @ Body resp),
                      status = StatusCode resp\<rparr>
            else Inr \<lparr>fileName = fn, result = None, status = 200\<rparr>)
      \<and> (\<forall>token. SplunkToken cfg = Some token \<longrightarrow>
            Header (SplunkBehavior_request s t fn fp) ''Authorization''
              = Some (''Splunk '' @ token))
      \<and> (SplunkToken cfg = None \<longrightarrow>
            Header (SplunkBehavior_request s t fn fp) ''Authorization'' = None)"
    by simp
qed

lemmas example_config_defs = http_config_def splunk_config_def Configuration_zero_def
  HttpBehavior_Initialize_def SplunkBehavior_Initialize_def

lemmas token_example_defs = bare_token_config_def bare_token_behavior_def no_token_config_def
  no_token_behavior_def no_token_splunk_behavior_def token_checking_network_def

theorem authorization_header_witness:
  \<open>HttpBehavior_Initialize bare_token_config ''https://siem.example/ingest''
     = Inr (bare_token_behavior, None)
   \<and> HttpAuthorizationToken bare_token_config = Some ''0123abcd''
   \<and> HttpBehavior_Upload (token_checking_network (Some ''0123abcd'')) bare_token_behavior
         ''bundle.json'' file_abc
       = Inr \<lparr>fileName = ''bundle.json'', result = None, status = 200\<rparr>
   \<and> SplunkBehavior_Initialize splunk_config ''https://hec.example:8088/services/collector''
     = Inr (splunk_behavior ''https://hec.example:8088/services/collector'', None)
   \<and> SplunkToken splunk_config = Some ''0123abcd''
   \<and> SplunkBehavior_Upload (token_checking_network (Some ''Splunk 0123abcd''))
         (splunk_behavior ''https://hec.example:8088/services/collector'')
         ''bundle.json'' file_abc
       = Inr \<lparr>fileName = ''bundle.json'', result = None, status = 200\<rparr>
   \<and> HttpBehavior_Initialize no_token_config ''https://siem.example/ingest''
     = Inr (no_token_behavior, None)
   \<and> HttpAuthorizationToken no_token_config = None
   \<and> HttpBehavior_Upload (token_checking_network None) no_token_behavior
         ''bundle.json'' file_abc
       = Inr \<lparr>fileName = ''bundle.json'', result = None, status = 200\<rparr>
   \<and> SplunkBehavior_Initialize no_token_config ''https://hec.example:8088/services/collector''
     = Inr (no_token_splunk_behavior, None)
   \<and> SplunkToken no_token_config = None
   \<and> SplunkBehavior_Upload (token_checking_network None) no_token_splunk_behavior
         ''bundle.json'' file_abc
       = Inr \<lparr>fileName = ''bundle.json'', result = None, status = 200\<rparr>\<close>
  using authorization_header [of bare_token_config "''https://siem.example/ingest''"
          bare_token_behavior None http_json_post_template
          "token_checking_network (Some ''0123abcd'')" "''bundle.json''" file_abc]
        authorization_header [of splunk_config "''https://hec.example:8088/services/collector''"
          _ _ splunk_json_post_template
          "token_checking_network (Some ''Splunk 0123abcd'')" "''bundle.json''" file_abc
          "splunk_behavior ''https://hec.example:8088/services/collector''" None]
        authorization_header [of no_token_config "''https://siem.example/ingest''"
          no_token_behavior None http_json_post_template
          "token_checking_network None" "''bundle.json''" file_abc]
        authorization_header [of no_token_config "''https://hec.example:8088/services/collector''"
          _ _ http_json_post_template
          "token_checking_network None" "''bundle.json''" file_abc
          no_token_splunk_behavior None]
  by (simp add: example_config_defs example_upload_defs token_example_defs fun_eq_iff
      HttpBehavior_Upload_def SplunkBehavior_Upload_def)

text \<open>
  C2 as stated fails: between the records a, b and c of the rendered body stand a newline,
  a comma and a space, not a comma alone.
\<close>

theorem default_json_rendering_counterexample:
  \<open>HttpBehavior_Initialize http_config ''https://siem.example/ingest''
     = Inr (http_behavior ''https://siem.example/ingest'', None)
   \<and> RequestBody (HttpBehavior_request (http_behavior ''https://siem.example/ingest'')
                    http_json_post_template ''F'' file_abc)
       = ''{"filename": "F", "service": "carbonblack", "alerts":[a\<newline>, b\<newline>, c]}''
   \<and> ''{"filename": "F", "service": "carbonblack", "alerts":[a\<newline>, b\<newline>, c]}''
       \<noteq> ''{"filename": "F", "service": "carbonblack", "alerts":[a,b,c]}''\<close>
  by (simp add: example_config_defs example_upload_defs fun_eq_iff
      http_json_post_template_def Execute_post_template_def Execute_event_template_def)

text \<open>
  C2, amended. The post template ParseConfig installs for the http output type in JSON
  format, when the configuration file gives none, is the default one; rendering a bundle of
  the three records a, b, c with file name F through it and the HTTP behaviour's event
  templates produces the envelope with the file name, then a, then b and c each preceded by
  a newline, a comma and a space, and nothing before a or after c inside the brackets.
\<close>

theorem default_json_rendering:
  \<open>(Get input ''http'' ''http_post_template'' = None \<and> OutputFormat config = JSONOutputFormat
      \<and> ParseConfig_output_type w input ''http'' config errs = Inr (parameterKey, config', errs')
    \<longrightarrow> HttpPostTemplate config' = Some http_json_post_template)
   \<and> (HttpBehavior_Initialize cfg d = Inr (h, e)
      \<and> HttpPostTemplate cfg = Some http_json_post_template
      \<and> file_records fp = [a, b, c]
    \<longrightarrow> httpPostTemplate h = Some http_json_post_template
      \<and> RequestBody (HttpBehavior_request h http_json_post_template F fp)
          = ''{"filename": "'' @ F @ ''", "service": "carbonblack", "alerts":[''
            @ a @ ''\<newline>, '' @ b @ ''\<newline>, '' @ c @ '']}'')\<close>
proof (intro conjI impI)
  assume "Get input ''http'' ''http_post_template'' = None \<and> OutputFormat config = JSONOutputFormat
      \<and> ParseConfig_output_type w input ''http'' config errs = Inr (parameterKey, config', errs')"
  then show "HttpPostTemplate config' = Some http_json_post_template"
    by (auto simp add: ParseConfig_output_type_def Let_def split: option.splits)
next
  assume a: "HttpBehavior_Initialize cfg d = Inr (h, e)
      \<and> HttpPostTemplate cfg = Some http_json_post_template
      \<and> file_records fp = [a, b, c]"
  then show "httpPostTemplate h = Some http_json_post_template"
    using HttpBehavior_Initialize_Inr [of cfg d h e] by simp
  from a show \<open>RequestBody (HttpBehavior_request h http_json_post_template F fp)
          = ''{"filename": "'' @ F @ ''", "service": "carbonblack", "alerts":[''
            @ a @ ''\<newline>, '' @ b @ ''\<newline>, '' @ c @ '']}''\<close>
    using HttpBehavior_Initialize_Inr [of cfg d h e]
    by (simp add: HttpBehavior_request_def http_json_post_template_def
        Execute_post_template_def Execute_event_template_def)
qed

theorem default_json_rendering_witness:
  \<open>Get http_conf ''http'' ''http_post_template'' = None
   \<and> OutputFormat http_config = JSONOutputFormat
   \<and> ParseConfig_output_type (example_world http_conf) http_conf ''http'' http_config
        \<lparr>Errors = [], Empty = True\<rparr>
       = Inr (''httpout'', http_config, \<lparr>Errors = [], Empty = True\<rparr>)
   \<and> HttpBehavior_Initialize http_config ''https://siem.example/ingest''
       = Inr (http_behavior ''https://siem.example/ingest'', None)
   \<and> file_records file_abc = [''a'', ''b'', ''c'']
   \<and> RequestBody (HttpBehavior_request (http_behavior ''https://siem.example/ingest'')
                    http_json_post_template ''F'' file_abc)
       = ''{"filename": "F", "service": "carbonblack", "alerts":[a\<newline>, b\<newline>, c]}''\<close>
  using default_json_rendering [of http_conf http_config "example_world http_conf"
          "\<lparr>Errors = [], Empty = True\<rparr>" "''httpout''" http_config
          "\<lparr>Errors = [], Empty = True\<rparr>" http_config "''https://siem.example/ingest''"
          "http_behavior ''https://siem.example/ingest''" None file_abc
          "''a''" "''b''" "''c''" "''F''"]
  by (simp add: example_config_defs example_upload_defs fun_eq_iff http_conf_def Get_def
      ParseConfig_output_type_def)

text \<open>
  C3 as stated fails: in JSON format the HTTP behaviour's subsequent-record template emits
  a newline, a comma and a space before the record, not a comma alone.
\<close>

theorem default_event_templates_counterexample:
  "OutputFormat http_config = JSONOutputFormat
   \<and> HttpBehavior_Initialize http_config ''https://siem.example/ingest''
       = Inr (http_behavior ''https://siem.example/ingest'', None)
   \<and> Execute_event_template
        (subsequentEventTemplate (http_behavior ''https://siem.example/ingest'')) ''b''
       = ''\<newline>, b''
   \<and> ''\<newline>, b'' \<noteq> '','' @ ''b''"
  by (simp add: example_config_defs example_upload_defs fun_eq_iff Execute_event_template_def)

text \<open>
  C3, amended. For every configuration, the first-record template of the HTTP and of the
  Splunk behaviour emits the record verbatim; the subsequent-record template of the HTTP
  behaviour emits a newline, a comma and a space followed by the record verbatim, and that
  of the Splunk behaviour emits the record verbatim with no separator, whatever the output
  format.
\<close>

theorem default_event_templates:
  "(HttpBehavior_Initialize cfg d = Inr (h, e) \<longrightarrow>
      Execute_event_template (firstEventTemplate h) r = r
      \<and> Execute_event_template (subsequentEventTemplate h) r = ''\<newline>, '' @ r)
   \<and> (SplunkBehavior_Initialize cfg d' = Inr (s, e') \<longrightarrow>
      Execute_event_template (splunk_firstEventTemplate s) r = r
      \<and> Execute_event_template (splunk_subsequentEventTemplate s) r = r)"
proof (intro conjI impI)
  assume a: "HttpBehavior_Initialize cfg d = Inr (h, e)"
  show "Execute_event_template (firstEventTemplate h) r = r"
    using HttpBehavior_Initialize_Inr [OF a] by (simp add: Execute_event_template_def)
  show "Execute_event_template (subsequentEventTemplate h) r = ''\<newline>, '' @ r"
    using HttpBehavior_Initialize_Inr [OF a] by (simp add: Execute_event_template_def)
next
  assume a: "SplunkBehavior_Initialize cfg d' = Inr (s, e')"
  show "Execute_event_template (splunk_firstEventTemplate s) r = r"
    using SplunkBehavior_Initialize_Inr [OF a] by (simp add: Execute_event_template_def)
  show "Execute_event_template (splunk_subsequentEventTemplate s) r = r"
    using SplunkBehavior_Initialize_Inr [OF a] by (simp add: Execute_event_template_def)
qed

theorem default_event_templates_witness:
  "OutputFormat (http_config\<lparr>OutputFormat := LEEFOutputFormat\<rparr>) = LEEFOutputFormat
   \<and> HttpBehavior_Initialize (http_config\<lparr>OutputFormat := LEEFOutputFormat\<rparr>)
        ''https://siem.example/ingest''
       = Inr (http_behavior ''https://siem.example/ingest'', None)
   \<and> Execute_event_template
        (firstEventTemplate (http_behavior ''https://siem.example/ingest'')) ''a'' = ''a''
   \<and> Execute_event_template
        (subsequentEventTemplate (http_behavior ''https://siem.example/ingest'')) ''b''
       = ''\<newline>, b''
   \<and> OutputFormat splunk_config = JSONOutputFormat
   \<and> SplunkBehavior_Initialize splunk_config ''https://hec.example:8088/services/collector''
       = Inr (splunk_behavior ''https://hec.example:8088/services/collector'', None)
   \<and> Execute_event_template
        (splunk_firstEventTemplate
           (splunk_behavior ''https://hec.example:8088/services/collector'')) ''a'' = ''a''
   \<and> Execute_event_template
        (splunk_subsequentEventTemplate
           (splunk_behavior ''https://hec.example:8088/services/collector'')) ''b'' = ''b''"
  using default_event_templates [of "http_config\<lparr>OutputFormat := LEEFOutputFormat\<rparr>"
          "''https://siem.example/ingest''" "http_behavior ''https://siem.example/ingest''" None
          "''a''"]
        default_event_templates [of "http_config\<lparr>OutputFormat := LEEFOutputFormat\<rparr>"
          "''https://siem.example/ingest''" "http_behavior ''https://siem.example/ingest''" None
          "''b''"]
        default_event_templates [of splunk_config _ _ _ "''b''"
          "''https://hec.example:8088/services/collector''"
          "splunk_behavior ''https://hec.example:8088/services/collector''" None]
  by (simp add: example_config_defs example_upload_defs fun_eq_iff Execute_event_template_def)

section \<open>Properties of ParseConfig\<close>

subsection \<open>What each block changes\<close>

lemma errors_kept_refl: "errors_kept e e"
  by (simp add: errors_kept_def)


lemma errors_kept_addErrorString: "errors_kept e (addErrorString e m)"
  by (auto simp add: errors_kept_def addErrorString_def)

lemma errors_kept_addErrorString2: "errors_kept e (addErrorString (addErrorString e m) m')"
  by (auto simp add: errors_kept_def addErrorString_def)

lemma ParseConfig_tls_http_settings:
  "http_settings (fst (ParseConfig_tls input outType c e)) = http_settings c"
  by (cases "Get input outType ''client_key''"; cases "Get input outType ''client_cert''";
      cases "Get input outType ''ca_cert''"; cases "Get input outType ''tls_verify''";
      cases "Get input outType ''insecure_tls''"; cases "Get input outType ''server_cname''";
      simp add: ParseConfig_tls_def Let_def http_settings_def split: option.splits)


lemma ParseConfig_audit_http_settings:
  "ParseConfig_audit input c = Inr c' \<Longrightarrow> http_settings c' = http_settings c"
  by (cases "Get input ''audit'' ''enabled''"; cases "Get input ''audit'' ''redis_host''";
      cases "Get input ''audit'' ''redis_database_number''";
      cases "Get input ''audit'' ''pipeline_size''";
      auto simp add: ParseConfig_audit_def Let_def http_settings_def
        split: option.splits if_splits)

lemma ParseConfig_parameters_http_settings:
  "http_settings (fst (ParseConfig_parameters input outType parameterKey c e)) = http_settings c"
  by (cases "Get input ''bridge'' parameterKey";
      cases "Get input ''bridge'' ''use_raw_sensor_exchange''";
      simp add: ParseConfig_parameters_def Let_def http_settings_def split: option.splits)

lemma ParseConfig_parameters_errors:
  "errors_kept e (snd (ParseConfig_parameters input outType parameterKey c e))"
  by (cases "Get input ''bridge'' parameterKey";
      cases "Get input ''bridge'' ''use_raw_sensor_exchange''";
      simp add: ParseConfig_parameters_def Let_def errors_kept_refl errors_kept_addErrorString
        errors_kept_addErrorString2 split: option.splits)


lemma ParseConfig_bundle_http_settings:
  "http_settings (fst (ParseConfig_bundle input outType c e)) = http_settings c"
  by (cases "Get input outType ''upload_empty_files''";
      cases "Get input outType ''bundle_size_max''";
      cases "Get input outType ''bundle_send_timeout''";
      simp add: ParseConfig_bundle_def Let_def http_settings_def split: option.splits)


lemma ParseConfig_bundle_settings:
  "bundle_settings (fst (ParseConfig_bundle input outType c e)) =
     (outType \<noteq> ''splunk''
        \<and> (case Get input outType ''upload_empty_files'' of
             None \<Rightarrow> True
           | Some v \<Rightarrow> strconv_ParseBool v \<noteq> Some False),
      OutputFormat c = JSONOutputFormat,
      (case Get input outType ''bundle_send_timeout'' of
         None \<Rightarrow> 5 * time_Minute
       | Some v \<Rightarrow> (case strconv_ParseInt v of
                      None \<Rightarrow> 5 * time_Minute
                    | Some n \<Rightarrow> wrap_int64 (n * time_Second))),
      (case Get input outType ''bundle_size_max'' of
         None \<Rightarrow> 10 * 1024 * 1024
       | Some v \<Rightarrow> (case strconv_ParseInt v of
                      None \<Rightarrow> 10 * 1024 * 1024
                    | Some n \<Rightarrow> n)))"
  by (cases "Get input outType ''upload_empty_files''";
      cases "Get input outType ''bundle_size_max''";
      cases "Get input outType ''bundle_send_timeout''";
      simp add: ParseConfig_bundle_def Let_def bundle_settings_def split: option.splits)

lemma ParseConfig_api_settings:
  "http_settings (fst (ParseConfig_api input c e)) = http_settings c"
  "bundle_settings (fst (ParseConfig_api input c e)) = bundle_settings c"
  "errors_kept e (snd (ParseConfig_api input c e))"
  by (cases "Get input ''bridge'' ''api_verify_ssl''"; cases "Get input ''bridge'' ''api_token''";
      cases "Get input ''bridge'' ''api_proxy_url''";
      simp add: ParseConfig_api_def Let_def http_settings_def bundle_settings_def
        errors_kept_refl errors_kept_addErrorString split: option.splits)+

lemma foldl_keeps:
  assumes "\<And>a x. g (f a x) = g a"
  shows "g (foldl f a xs) = g a"
  by (induction xs arbitrary: a) (simp_all add: assms)

lemma parseEventType_settings:
  "http_settings (parseEventType w input c t) = http_settings c"
  "bundle_settings (parseEventType w input c t) = bundle_settings c"
  by (simp_all add: parseEventType_def Let_def http_settings_def bundle_settings_def
      split: option.splits)

lemma parseEventTypes_settings:
  "http_settings (parseEventTypes w input c) = http_settings c"
  "bundle_settings (parseEventTypes w input c) = bundle_settings c"
proof -
  let ?c1 = "foldl (parseEventType w input) c eventTypes"
  let ?c2 = "?c1\<lparr>EventMap := Map.empty\<rparr>"
  let ?f = "\<lambda>c eventName. c\<lparr>EventMap := (EventMap c)(eventName \<mapsto> True)\<rparr>"
  have e: "parseEventTypes w input c = foldl ?f ?c2 (EventTypes ?c2)"
    by (simp add: parseEventTypes_def Let_def)
  have "http_settings (foldl ?f ?c2 (EventTypes ?c2)) = http_settings ?c2"
    by (rule foldl_keeps) (simp add: http_settings_def)
  also have "\<dots> = http_settings ?c1"
    by (simp add: http_settings_def)
  also have "\<dots> = http_settings c"
    by (rule foldl_keeps) (rule parseEventType_settings)
  finally show "http_settings (parseEventTypes w input c) = http_settings c"
    by (simp only: e)
  have "bundle_settings (foldl ?f ?c2 (EventTypes ?c2)) = bundle_settings ?c2"
    by (rule foldl_keeps) (simp add: bundle_settings_def)
  also have "\<dots> = bundle_settings ?c1"
    by (simp add: bundle_settings_def)
  also have "\<dots> = bundle_settings c"
    by (rule foldl_keeps) (rule parseEventType_settings)
  finally show "bundle_settings (parseEventTypes w input c) = bundle_settings c"
    by (simp only: e)
qed

lemma parseMonitoredLogs_settings:
  "http_settings (parseMonitoredLogs input c) = http_settings c"
  "bundle_settings (parseMonitoredLogs input c) = bundle_settings c"
  by (simp_all add: parseMonitoredLogs_def http_settings_def bundle_settings_def
      split: option.splits)

lemma ParseConfig_output_type_parameterKey:
  assumes "ParseConfig_output_type w input outType c e = Inr (pk, c', e')"
  shows "pk = (case map_of parameter_keys outType of Some key \<Rightarrow> key | None \<Rightarrow> [])"
proof -
  consider "outType = ''file''" | "outType = ''tcp''" | "outType = ''udp''"
    | "outType = ''s3''" | "outType = ''http''" | "outType = ''syslog''"
    | "outType = ''kafka''" | "outType = ''splunk''"
    | "outType \<notin> set [''file'', ''tcp'', ''udp'', ''s3'', ''http'', ''syslog'', ''kafka'',
                        ''splunk'']"
    by auto
  then show ?thesis
  proof cases
    case 1
    with assms show ?thesis
      by (simp add: ParseConfig_output_type_def parameter_keys_def)
  next
    case 2
    with assms show ?thesis
      by (simp add: ParseConfig_output_type_def parameter_keys_def)
  next
    case 3
    with assms show ?thesis
      by (simp add: ParseConfig_output_type_def parameter_keys_def)
  next
    case 4
    with assms show ?thesis
      by (simp add: ParseConfig_output_type_def parameter_keys_def Let_def)
  next
    case 5
    with assms show ?thesis
      by (auto simp add: ParseConfig_output_type_def parameter_keys_def Let_def
          split: sum.splits)
  next
    case 6
    with assms show ?thesis
      by (simp add: ParseConfig_output_type_def parameter_keys_def)
  next
    case 7
    with assms show ?thesis
      by (simp add: ParseConfig_output_type_def parameter_keys_def Let_def)
  next
    case 8
    with assms show ?thesis
      by (auto simp add: ParseConfig_output_type_def parameter_keys_def Let_def
          split: sum.splits)
  next
    case 9
    with assms show ?thesis
      by (simp add: ParseConfig_output_type_def parameter_keys_def)
  qed
qed

lemma ParseConfig_output_type_splunk:
  assumes "ParseConfig_output_type w input ''splunk'' c e = Inr (pk, c', e')"
  shows "HttpContentType c' =
           Some (case Get input ''http'' ''content_type'' of
                   Some contentType \<Rightarrow> contentType
                 | None \<Rightarrow> ''application/json'')"
  using assms
  by (cases "Get input ''http'' ''content_type''")
     (auto simp add: ParseConfig_output_type_def Let_def split: sum.splits)

subsection \<open>The blocks a returning ParseConfig went through\<close>

lemma ParseConfig_input_Inr:
  assumes "ParseConfig_input w input = Inr (cfg, err)"
      and "Get input ''bridge'' ''output_type'' = Some v"
  obtains c0 e0 pk c1 e1 c2 c3 e3 c4 e4 tls c5 e5 c6 e6 where
    "ParseConfig_bridge w input Configuration_zero \<lparr>Errors = [], Empty = True\<rparr> = (c0, e0)"
    "ParseConfig_output_type w input (normalized w v) c0 e0 = Inr (pk, c1, e1)"
    "ParseConfig_audit input c1 = Inr c2"
    "ParseConfig_parameters input (normalized w v) pk c2 e1 = (c3, e3)"
    "ParseConfig_tls input (normalized w v) c3 e3 = (c4, e4)"
    "configureTLS w c4 = Inr tls"
    "ParseConfig_bundle input (normalized w v) (c4\<lparr>TLSConfig := Some tls\<rparr>) e4 = (c5, e5)"
    "ParseConfig_api input c5 e5 = (c6, e6)"
    "cfg = parseMonitoredLogs input (parseEventTypes w input c6)"
    "err = (if \<not> Empty e6 then Some (ConfigurationErr e6) else None)"
proof -
  obtain c0 e0 where b0:
    "ParseConfig_bridge w input Configuration_zero \<lparr>Errors = [], Empty = True\<rparr> = (c0, e0)"
    by (cases "ParseConfig_bridge w input Configuration_zero \<lparr>Errors = [], Empty = True\<rparr>")
  from assms b0 obtain pk c1 e1 where b1:
    "ParseConfig_output_type w input (normalized w v) c0 e0 = Inr (pk, c1, e1)"
    by (cases "ParseConfig_output_type w input (normalized w v) c0 e0")
       (auto simp add: ParseConfig_input_def normalized_def)
  from assms b0 b1 obtain c2 where b2: "ParseConfig_audit input c1 = Inr c2"
    by (cases "ParseConfig_audit input c1")
       (auto simp add: ParseConfig_input_def normalized_def)
  obtain c3 e3 where b3: "ParseConfig_parameters input (normalized w v) pk c2 e1 = (c3, e3)"
    by (cases "ParseConfig_parameters input (normalized w v) pk c2 e1")
  obtain c4 e4 where b4: "ParseConfig_tls input (normalized w v) c3 e3 = (c4, e4)"
    by (cases "ParseConfig_tls input (normalized w v) c3 e3")
  from assms b0 b1 b2 b3 b4 obtain tls where b5: "configureTLS w c4 = Inr tls"
    by (cases "configureTLS w c4")
       (auto simp add: ParseConfig_input_def normalized_def)
  obtain c5 e5 where b6:
    "ParseConfig_bundle input (normalized w v) (c4\<lparr>TLSConfig := Some tls\<rparr>) e4 = (c5, e5)"
    by (cases "ParseConfig_bundle input (normalized w v) (c4\<lparr>TLSConfig := Some tls\<rparr>) e4")
  obtain c6 e6 where b7: "ParseConfig_api input c5 e5 = (c6, e6)"
    by (cases "ParseConfig_api input c5 e5")
  from assms b0 b1 b2 b3 b4 b5 b6 b7
  have "cfg = parseMonitoredLogs input (parseEventTypes w input c6)"
    and "err = (if \<not> Empty e6 then Some (ConfigurationErr e6) else None)"
    by (auto simp add: ParseConfig_input_def normalized_def Let_def split: if_splits)
  with b0 b1 b2 b3 b4 b5 b6 b7 show thesis
    by (rule that)
qed

lemma ParseConfig_input_no_error:
  assumes "ParseConfig_input w input = Inr (cfg, None)"
  shows "\<exists>v. Get input ''bridge'' ''output_type'' = Some v"
proof (cases "Get input ''bridge'' ''output_type''")
  case None
  with assms show ?thesis
    by (simp add: ParseConfig_input_def split_beta Let_def)
next
  case (Some v)
  then show ?thesis by simp
qed

lemma ParseConfig_input_bundle_settings:
  assumes "ParseConfig_input w input = Inr (cfg, err)"
      and "Get input ''bridge'' ''output_type'' = Some v"
  shows "bundle_settings cfg =
     (normalized w v \<noteq> ''splunk''
        \<and> (case Get input (normalized w v) ''upload_empty_files'' of
             None \<Rightarrow> True
           | Some b \<Rightarrow> strconv_ParseBool b \<noteq> Some False),
      OutputFormat cfg = JSONOutputFormat,
      (case Get input (normalized w v) ''bundle_send_timeout'' of
         None \<Rightarrow> 5 * time_Minute
       | Some t \<Rightarrow> (case strconv_ParseInt t of
                      None \<Rightarrow> 5 * time_Minute
                    | Some n \<Rightarrow> wrap_int64 (n * time_Second))),
      (case Get input (normalized w v) ''bundle_size_max'' of
         None \<Rightarrow> 10 * 1024 * 1024
       | Some m \<Rightarrow> (case strconv_ParseInt m of
                      None \<Rightarrow> 10 * 1024 * 1024
                    | Some n \<Rightarrow> n)))"
proof -
  from assms obtain c4 e4 tls c5 e5 c6 e6 where
    b: "ParseConfig_bundle input (normalized w v) (c4\<lparr>TLSConfig := Some tls\<rparr>) e4 = (c5, e5)"
    and a: "ParseConfig_api input c5 e5 = (c6, e6)"
    and c: "cfg = parseMonitoredLogs input (parseEventTypes w input c6)"
    by (rule ParseConfig_input_Inr)
  have c5: "c5 = fst (ParseConfig_bundle input (normalized w v) (c4\<lparr>TLSConfig := Some tls\<rparr>) e4)"
    by (simp add: b)
  have c6: "c6 = fst (ParseConfig_api input c5 e5)"
    by (simp add: a)
  have "http_settings cfg = http_settings c6"
    by (simp only: c parseMonitoredLogs_settings parseEventTypes_settings)
  also have "\<dots> = http_settings c5"
    by (simp only: c6 ParseConfig_api_settings)
  also have "\<dots> = http_settings (c4\<lparr>TLSConfig := Some tls\<rparr>)"
    by (simp only: c5 ParseConfig_bundle_http_settings)
  finally have fmt: "OutputFormat cfg = OutputFormat (c4\<lparr>TLSConfig := Some tls\<rparr>)"
    by (simp add: http_settings_def)
  have "bundle_settings cfg = bundle_settings c6"
    by (simp only: c parseMonitoredLogs_settings parseEventTypes_settings)
  also have "\<dots> = bundle_settings c5"
    by (simp only: c6 ParseConfig_api_settings)
  finally show ?thesis
    by (simp only: c5 ParseConfig_bundle_settings fmt)
qed

lemma ParseConfig_input_http_settings:
  assumes "ParseConfig_input w input = Inr (cfg, err)"
      and "Get input ''bridge'' ''output_type'' = Some v"
  obtains c0 e0 pk c1 e1 where
    "ParseConfig_output_type w input (normalized w v) c0 e0 = Inr (pk, c1, e1)"
    "http_settings cfg = http_settings c1"
proof -
  from assms obtain c0 e0 pk c1 e1 c2 c3 e3 c4 e4 tls c5 e5 c6 e6 where
    b1: "ParseConfig_output_type w input (normalized w v) c0 e0 = Inr (pk, c1, e1)"
    and b2: "ParseConfig_audit input c1 = Inr c2"
    and b3: "ParseConfig_parameters input (normalized w v) pk c2 e1 = (c3, e3)"
    and b4: "ParseConfig_tls input (normalized w v) c3 e3 = (c4, e4)"
    and b6: "ParseConfig_bundle input (normalized w v) (c4\<lparr>TLSConfig := Some tls\<rparr>) e4 = (c5, e5)"
    and b7: "ParseConfig_api input c5 e5 = (c6, e6)"
    and c: "cfg = parseMonitoredLogs input (parseEventTypes w input c6)"
    by (rule ParseConfig_input_Inr)
  have c3: "c3 = fst (ParseConfig_parameters input (normalized w v) pk c2 e1)"
    by (simp add: b3)
  have c4: "c4 = fst (ParseConfig_tls input (normalized w v) c3 e3)"
    by (simp add: b4)
  have c5: "c5 = fst (ParseConfig_bundle input (normalized w v) (c4\<lparr>TLSConfig := Some tls\<rparr>) e4)"
    by (simp add: b6)
  have c6: "c6 = fst (ParseConfig_api input c5 e5)"
    by (simp add: b7)
  have "http_settings cfg = http_settings c6"
    by (simp only: c parseMonitoredLogs_settings parseEventTypes_settings)
  also have "\<dots> = http_settings c5"
    by (simp only: c6 ParseConfig_api_settings)
  also have "\<dots> = http_settings (c4\<lparr>TLSConfig := Some tls\<rparr>)"
    by (simp only: c5 ParseConfig_bundle_http_settings)
  also have "\<dots> = http_settings c4"
    by (simp add: http_settings_def)
  also have "\<dots> = http_settings c3"
    by (simp only: c4 ParseConfig_tls_http_settings)
  also have "\<dots> = http_settings c2"
    by (simp only: c3 ParseConfig_parameters_http_settings)
  also have "\<dots> = http_settings c1"
    by (rule ParseConfig_audit_http_settings [OF b2])
  finally show thesis
    using b1 by (rule that [rotated])
qed


lemma wrap_int64_id: "- (2 ^ 63) \<le> x \<Longrightarrow> x < 2 ^ 63 \<Longrightarrow> wrap_int64 x = x"
  by (simp add: wrap_int64_def)

lemma ParseConfig_Inr_input:
  "ini_LoadFile w fn = Inr input \<Longrightarrow> ParseConfig w fn = ParseConfig_input w input"
  by (simp add: ParseConfig_def)

subsection \<open>The example files parse\<close>

lemmas library_defs = Get_def strings_ToLower_def strings_TrimSpace_def is_ascii_def is_space_def
  lower_char_def strconv_ParseInt_def strconv_Atoi_def strconv_ParseBool_def is_digit_def
  digits_value_def strings_HasSuffix_slash_def template_Must_def addErrorString_def
  addError_def wrap_int64_def time_Second_def time_Minute_def normalized_def

lemmas ParseConfig_defs = ParseConfig_def ParseConfig_input_def ParseConfig_bridge_def
  ParseConfig_output_type_def ParseConfig_audit_def ParseConfig_parameters_def
  ParseConfig_tls_def configureTLS_def ParseConfig_bundle_def ParseConfig_api_def
  parseEventTypes_def parseEventType_def eventTypes_def parseMonitoredLogs_def
  parseCbConf_def Configuration_zero_def

lemmas example_world_defs = example_world_def example_path_def

lemma example_world_load: "ini_LoadFile (example_world conf) example_path = Inr conf"
  by (simp add: example_world_def example_path_def)

lemma normalized_examples:
  "normalized (example_world conf) ''http'' = ''http''"
  "normalized (example_world conf) '' Splunk'' = ''splunk''"
  by (simp_all add: library_defs example_world_def)

lemma http_conf_parses:
  "\<exists>p. ParseConfig (example_world http_conf) example_path = Inr p"
  by (simp add: example_world_defs http_conf_def ParseConfig_defs library_defs Let_def)

lemma http_conf_output_type: "Get http_conf ''bridge'' ''output_type'' = Some ''http''"
  by (simp add: http_conf_def Get_def)

lemma splunk_conf_parses:
  "\<exists>p. ParseConfig (example_world splunk_conf) example_path = Inr p"
  by (simp add: example_world_defs splunk_conf_def ParseConfig_defs library_defs Let_def)

lemma splunk_conf_output_type: "Get splunk_conf ''bridge'' ''output_type'' = Some '' Splunk''"
  by (simp add: splunk_conf_def Get_def)

lemmas kelvin_defs = kelvin_world_def kelvin_conf_def kelvin_SPLUNK_def splunk_conf_def
  ini_set_def example_world_defs

lemma kelvin_conf_parses: "\<exists>p. ParseConfig kelvin_world example_path = Inr p"
  by (simp add: kelvin_defs ParseConfig_defs library_defs Let_def)

lemma kelvin_conf_facts:
  "ini_LoadFile kelvin_world example_path = Inr kelvin_conf"
  "Get kelvin_conf ''bridge'' ''output_type'' = Some kelvin_SPLUNK"
  "normalized kelvin_world kelvin_SPLUNK = ''splunk''"
  "Get kelvin_conf ''splunk'' ''upload_empty_files'' = Some ''true''"
  "Get kelvin_conf ''splunk'' ''bundle_send_timeout'' = Some ''60''"
  by (simp_all add: kelvin_defs library_defs)

subsection \<open>The bundle settings\<close>

text \<open>
  C4. Whenever ParseConfig returns for a file that names an output type, UploadEmptyFiles
  is true when the output type is not splunk and its section has no upload_empty_files
  key, and it is false when the output type is splunk, whatever the file says about
  upload_empty_files.
\<close>

theorem upload_empty_files:
  assumes "ini_LoadFile w fn = Inr input"
      and "Get input ''bridge'' ''output_type'' = Some v"
      and "ParseConfig w fn = Inr (cfg, err)"
  shows "(normalized w v \<noteq> ''splunk'' \<and> Get input (normalized w v) ''upload_empty_files'' = None
            \<longrightarrow> UploadEmptyFiles cfg = True)
         \<and> (normalized w v = ''splunk'' \<longrightarrow> UploadEmptyFiles cfg = False)"
proof -
  from assms have "ParseConfig_input w input = Inr (cfg, err)"
    by (simp add: ParseConfig_Inr_input)
  from ParseConfig_input_bundle_settings [OF this assms(2)]
  show ?thesis
    by (auto simp add: bundle_settings_def)
qed

theorem upload_empty_files_witness:
  "ini_LoadFile (example_world http_conf) example_path = Inr http_conf
   \<and> Get http_conf ''bridge'' ''output_type'' = Some ''http''
   \<and> normalized (example_world http_conf) ''http'' \<noteq> ''splunk''
   \<and> Get http_conf (normalized (example_world http_conf) ''http'') ''upload_empty_files'' = None
   \<and> (\<exists>cfg err. ParseConfig (example_world http_conf) example_path = Inr (cfg, err)
          \<and> UploadEmptyFiles cfg = True)
   \<and> ini_LoadFile (example_world splunk_conf) example_path = Inr splunk_conf
   \<and> Get splunk_conf ''bridge'' ''output_type'' = Some '' Splunk''
   \<and> normalized (example_world splunk_conf) '' Splunk'' = ''splunk''
   \<and> Get splunk_conf ''splunk'' ''upload_empty_files'' = Some ''true''
   \<and> (\<exists>cfg err. ParseConfig (example_world splunk_conf) example_path = Inr (cfg, err)
          \<and> UploadEmptyFiles cfg = False)
   \<and> ini_LoadFile kelvin_world example_path = Inr kelvin_conf
   \<and> Get kelvin_conf ''bridge'' ''output_type'' = Some kelvin_SPLUNK
   \<and> normalized kelvin_world kelvin_SPLUNK = ''splunk''
   \<and> Get kelvin_conf ''splunk'' ''upload_empty_files'' = Some ''true''
   \<and> (\<exists>cfg err. ParseConfig kelvin_world example_path = Inr (cfg, err)
          \<and> UploadEmptyFiles cfg = False)"
proof -
  have g: "Get http_conf (normalized (example_world http_conf) ''http'') ''upload_empty_files'' = None"
    "Get splunk_conf ''splunk'' ''upload_empty_files'' = Some ''true''"
    by (simp_all add: http_conf_def splunk_conf_def library_defs)
  obtain cfg err where r: "ParseConfig (example_world http_conf) example_path = Inr (cfg, err)"
    using http_conf_parses by auto
  have "UploadEmptyFiles cfg = True"
    using upload_empty_files [OF example_world_load http_conf_output_type r] g
    by (simp add: normalized_examples)
  with r have 1: "\<exists>cfg err. ParseConfig (example_world http_conf) example_path = Inr (cfg, err)
          \<and> UploadEmptyFiles cfg = True"
    by blast
  obtain cfg' err' where r':
    "ParseConfig (example_world splunk_conf) example_path = Inr (cfg', err')"
    using splunk_conf_parses by auto
  have "UploadEmptyFiles cfg' = False"
    using upload_empty_files [OF example_world_load splunk_conf_output_type r']
    by (simp add: normalized_examples)
  with r' have 2: "\<exists>cfg err. ParseConfig (example_world splunk_conf) example_path = Inr (cfg, err)
          \<and> UploadEmptyFiles cfg = False"
    by blast
  obtain cfg'' err'' where r'': "ParseConfig kelvin_world example_path = Inr (cfg'', err'')"
    using kelvin_conf_parses by auto
  have "UploadEmptyFiles cfg'' = False"
    using upload_empty_files [OF kelvin_conf_facts(1) kelvin_conf_facts(2) r'']
    by (simp add: kelvin_conf_facts)
  with r'' have 3: "\<exists>cfg err. ParseConfig kelvin_world example_path = Inr (cfg, err)
          \<and> UploadEmptyFiles cfg = False"
    by blast
  from 1 2 3 g show ?thesis
    by (simp add: example_world_load http_conf_output_type splunk_conf_output_type
        normalized_examples kelvin_conf_facts)
qed

text \<open>
  C8. Whenever ParseConfig returns for a file that names an output type, BundleSizeMax is
  10 * 1024 * 1024 when the section of the output type has no bundle_size_max key, and
  BundleSendTimeout is five minutes (in nanoseconds) when it has no bundle_send_timeout
  key.
\<close>

theorem bundle_defaults:
  assumes "ini_LoadFile w fn = Inr input"
      and "Get input ''bridge'' ''output_type'' = Some v"
      and "ParseConfig w fn = Inr (cfg, err)"
  shows "(Get input (normalized w v) ''bundle_size_max'' = None
            \<longrightarrow> BundleSizeMax cfg = 10 * 1024 * 1024)
         \<and> (Get input (normalized w v) ''bundle_send_timeout'' = None
            \<longrightarrow> BundleSendTimeout cfg = 5 * time_Minute
              \<and> BundleSendTimeout cfg = 5 * 60 * 1000000000)"
proof -
  from assms have "ParseConfig_input w input = Inr (cfg, err)"
    by (simp add: ParseConfig_Inr_input)
  from ParseConfig_input_bundle_settings [OF this assms(2)]
  show ?thesis
    by (auto simp add: bundle_settings_def time_Minute_def time_Second_def)
qed

theorem bundle_defaults_witness:
  "ini_LoadFile (example_world http_conf) example_path = Inr http_conf
   \<and> Get http_conf ''bridge'' ''output_type'' = Some ''http''
   \<and> Get http_conf (normalized (example_world http_conf) ''http'') ''bundle_size_max'' = None
   \<and> Get http_conf (normalized (example_world http_conf) ''http'') ''bundle_send_timeout'' = None
   \<and> (\<exists>cfg err. ParseConfig (example_world http_conf) example_path = Inr (cfg, err)
          \<and> BundleSizeMax cfg = 10485760 \<and> BundleSendTimeout cfg = 300000000000)"
proof -
  have g: "Get http_conf (normalized (example_world http_conf) ''http'') ''bundle_size_max'' = None"
    "Get http_conf (normalized (example_world http_conf) ''http'') ''bundle_send_timeout'' = None"
    by (simp_all add: http_conf_def library_defs)
  obtain cfg err where r: "ParseConfig (example_world http_conf) example_path = Inr (cfg, err)"
    using http_conf_parses by auto
  have "BundleSizeMax cfg = 10485760 \<and> BundleSendTimeout cfg = 300000000000"
    using bundle_defaults [OF example_world_load http_conf_output_type r] g
    by simp
  with r have "\<exists>cfg err. ParseConfig (example_world http_conf) example_path = Inr (cfg, err)
          \<and> BundleSizeMax cfg = 10485760 \<and> BundleSendTimeout cfg = 300000000000"
    by blast
  with g show ?thesis
    by (simp add: example_world_load http_conf_output_type)
qed

subsection \<open>Keys that ParseConfig does not read\<close>

lemma Get_ini_set:
  "Get (ini_set f s k x) s' k' = (if s' = s \<and> k' = k then Some x else Get f s' k')"
  by (simp add: Get_def ini_set_def split: option.splits)

lemma Get_ini_del:
  "Get (ini_del f s k) s' k' = (if s' = s \<and> k' = k then None else Get f s' k')"
  by (simp add: Get_def ini_del_def split: option.splits)

lemmas literal_eq = list.inject list.distinct char.inject simp_thms if_True if_False

lemma ParseConfig_bridge_ini_set:
  "ParseConfig_bridge w (ini_set input ''splunk'' ''content_type'' x) c e
     = ParseConfig_bridge w input c e"
  by (simp only: ParseConfig_bridge_def Get_ini_set literal_eq)

lemma ParseConfig_bridge_ini_del:
  "ParseConfig_bridge w (ini_del input s ''bundle_send_timeout'') c e
     = ParseConfig_bridge w input c e"
  by (simp only: ParseConfig_bridge_def Get_ini_del literal_eq)

lemma ParseConfig_output_type_ini_set:
  "ParseConfig_output_type w (ini_set input ''splunk'' ''content_type'' x) outType c e
     = ParseConfig_output_type w input outType c e"
  by (simp only: ParseConfig_output_type_def Get_ini_set literal_eq)

lemma ParseConfig_audit_ini_set:
  "ParseConfig_audit (ini_set input ''splunk'' ''content_type'' x) c = ParseConfig_audit input c"
  by (simp only: ParseConfig_audit_def Get_ini_set literal_eq)

lemma ParseConfig_parameters_ini_set:
  "ParseConfig_parameters (ini_set input ''splunk'' ''content_type'' x) outType pk c e
     = ParseConfig_parameters input outType pk c e"
  by (simp only: ParseConfig_parameters_def Get_ini_set literal_eq)

lemma ParseConfig_tls_ini_set:
  "ParseConfig_tls (ini_set input ''splunk'' ''content_type'' x) outType c e
     = ParseConfig_tls input outType c e"
  by (simp only: ParseConfig_tls_def Get_ini_set literal_eq)

lemma ParseConfig_bundle_ini_set:
  "ParseConfig_bundle (ini_set input ''splunk'' ''content_type'' x) outType c e
     = ParseConfig_bundle input outType c e"
  by (simp only: ParseConfig_bundle_def Get_ini_set literal_eq)

lemma ParseConfig_api_ini_set:
  "ParseConfig_api (ini_set input ''splunk'' ''content_type'' x) c e
     = ParseConfig_api input c e"
  by (simp only: ParseConfig_api_def Get_ini_set literal_eq)

lemma parseEventType_ini_set:
  "parseEventType w (ini_set input ''splunk'' ''content_type'' x) = parseEventType w input"
  by (rule ext, rule ext) (simp only: parseEventType_def Get_ini_set literal_eq)

lemma parseEventTypes_ini_set:
  "parseEventTypes w (ini_set input ''splunk'' ''content_type'' x) c = parseEventTypes w input c"
  by (simp only: parseEventTypes_def parseEventType_ini_set)

lemma parseMonitoredLogs_ini_set:
  "parseMonitoredLogs (ini_set input ''splunk'' ''content_type'' x) c
     = parseMonitoredLogs input c"
  by (simp only: parseMonitoredLogs_def Get_ini_set literal_eq)

lemma ParseConfig_input_ini_set:
  "ParseConfig_input w (ini_set input ''splunk'' ''content_type'' x) = ParseConfig_input w input"
  by (simp only: ParseConfig_input_def ParseConfig_bridge_ini_set
      ParseConfig_output_type_ini_set ParseConfig_audit_ini_set ParseConfig_parameters_ini_set
      ParseConfig_tls_ini_set ParseConfig_bundle_ini_set ParseConfig_api_ini_set
      parseEventTypes_ini_set parseMonitoredLogs_ini_set Get_ini_set literal_eq)

lemma ParseConfig_output_type_ini_del:
  "ParseConfig_output_type w (ini_del input s ''bundle_send_timeout'') outType c e
     = ParseConfig_output_type w input outType c e"
  by (simp only: ParseConfig_output_type_def Get_ini_del literal_eq)

lemma ParseConfig_audit_ini_del:
  "ParseConfig_audit (ini_del input s ''bundle_send_timeout'') c = ParseConfig_audit input c"
  by (simp only: ParseConfig_audit_def Get_ini_del literal_eq)

lemma ParseConfig_parameters_ini_del:
  "pk \<noteq> ''bundle_send_timeout'' \<Longrightarrow>
     ParseConfig_parameters (ini_del input s ''bundle_send_timeout'') outType pk c e
       = ParseConfig_parameters input outType pk c e"
  by (simp add: ParseConfig_parameters_def Get_ini_del)

lemma ParseConfig_tls_ini_del:
  "ParseConfig_tls (ini_del input s ''bundle_send_timeout'') outType c e
     = ParseConfig_tls input outType c e"
  by (simp only: ParseConfig_tls_def Get_ini_del literal_eq)

lemma ParseConfig_bundle_ini_del:
  assumes "Get input s ''bundle_send_timeout'' = Some t" and "strconv_ParseInt t = None"
  shows "ParseConfig_bundle (ini_del input s ''bundle_send_timeout'') s c e
           = ParseConfig_bundle input s c e"
  by (simp only: ParseConfig_bundle_def Get_ini_del literal_eq assms option.case)

lemma ParseConfig_api_ini_del:
  "ParseConfig_api (ini_del input s ''bundle_send_timeout'') c e = ParseConfig_api input c e"
  by (simp only: ParseConfig_api_def Get_ini_del literal_eq)

lemma parseEventType_ini_del:
  "fst t \<noteq> ''bundle_send_timeout'' \<Longrightarrow>
     parseEventType w (ini_del input s ''bundle_send_timeout'') c t = parseEventType w input c t"
  by (simp add: parseEventType_def Get_ini_del)

lemma foldl_parseEventType_ini_del:
  "\<forall>t \<in> set ts. fst t \<noteq> ''bundle_send_timeout'' \<Longrightarrow>
     foldl (parseEventType w (ini_del input s ''bundle_send_timeout'')) c ts
       = foldl (parseEventType w input) c ts"
  by (induction ts arbitrary: c) (simp_all add: parseEventType_ini_del)

lemma parseEventTypes_ini_del:
  "parseEventTypes w (ini_del input s ''bundle_send_timeout'') c = parseEventTypes w input c"
proof -
  have "\<forall>t \<in> set eventTypes. fst t \<noteq> ''bundle_send_timeout''"
    by (simp add: eventTypes_def)
  then show ?thesis
    by (simp only: parseEventTypes_def foldl_parseEventType_ini_del)
qed

lemma parseMonitoredLogs_ini_del:
  "parseMonitoredLogs (ini_del input s ''bundle_send_timeout'') c = parseMonitoredLogs input c"
  by (simp only: parseMonitoredLogs_def Get_ini_del literal_eq)

lemma parameterKey_not_bundle_send_timeout:
  "(case map_of parameter_keys outType of Some key \<Rightarrow> key | None \<Rightarrow> [])
     \<noteq> ''bundle_send_timeout''"
  by (simp add: parameter_keys_def)

lemma ParseConfig_input_ini_del:
  assumes "Get input ''bridge'' ''output_type'' = Some v"
      and "Get input (normalized w v) ''bundle_send_timeout'' = Some t"
      and "strconv_ParseInt t = None"
  shows "ParseConfig_input w (ini_del input (normalized w v) ''bundle_send_timeout'')
           = ParseConfig_input w input"
proof -
  let ?input = "ini_del input (normalized w v) ''bundle_send_timeout''"
  let ?outType = "strings_ToLower w (strings_TrimSpace w v)"
  have n: "?outType = normalized w v"
    by (simp add: normalized_def)
  have o: "Get ?input ''bridge'' ''output_type'' = Some v"
    by (simp add: Get_ini_del assms(1))
  obtain c0 e0 where b0:
    "ParseConfig_bridge w input Configuration_zero \<lparr>Errors = [], Empty = True\<rparr> = (c0, e0)"
    by (cases "ParseConfig_bridge w input Configuration_zero \<lparr>Errors = [], Empty = True\<rparr>")
  show ?thesis
  proof (cases "ParseConfig_output_type w input (normalized w v) c0 e0")
    case (Inl p)
    then show ?thesis
      by (simp add: ParseConfig_input_def o assms(1) n b0 ParseConfig_bridge_ini_del
          ParseConfig_output_type_ini_del)
  next
    case (Inr r)
    obtain pk c1 e1 where r: "r = (pk, c1, e1)"
      by (cases r)
    from Inr r have "pk \<noteq> ''bundle_send_timeout''"
      using ParseConfig_output_type_parameterKey parameterKey_not_bundle_send_timeout
      by metis
    with Inr r show ?thesis
      by (simp add: ParseConfig_input_def Let_def o assms n b0 ParseConfig_bridge_ini_del
          ParseConfig_output_type_ini_del ParseConfig_audit_ini_del
          ParseConfig_parameters_ini_del ParseConfig_tls_ini_del
          ParseConfig_bundle_ini_del [OF assms(2) assms(3)]
          ParseConfig_api_ini_del parseEventTypes_ini_del parseMonitoredLogs_ini_del
          cong: sum.case_cong)
  qed
qed

subsection \<open>The content type of the splunk output\<close>

text \<open>
  C10. Whenever ParseConfig returns for a file whose output type is splunk, HttpContentType
  is the value of the content_type key of the http section, and application/json when that
  section has no such key; setting content_type in the splunk section, to any value,
  changes nothing in what ParseConfig returns.
\<close>

theorem splunk_content_type:
  assumes "ini_LoadFile w fn = Inr input"
      and "Get input ''bridge'' ''output_type'' = Some v"
      and "normalized w v = ''splunk''"
      and "ParseConfig w fn = Inr (cfg, err)"
  shows "HttpContentType cfg =
           Some (case Get input ''http'' ''content_type'' of
                   Some contentType \<Rightarrow> contentType
                 | None \<Rightarrow> ''application/json'')
         \<and> ParseConfig_input w (ini_set input ''splunk'' ''content_type'' x) = Inr (cfg, err)"
proof -
  from assms have r: "ParseConfig_input w input = Inr (cfg, err)"
    by (simp add: ParseConfig_Inr_input)
  from r assms(2) obtain c0 e0 pk c1 e1 where
    o: "ParseConfig_output_type w input (normalized w v) c0 e0 = Inr (pk, c1, e1)"
    and h: "http_settings cfg = http_settings c1"
    by (rule ParseConfig_input_http_settings)
  from h have "HttpContentType cfg = HttpContentType c1"
    by (simp add: http_settings_def)
  with o assms(3) r show ?thesis
    by (simp add: ParseConfig_output_type_splunk ParseConfig_input_ini_set)
qed

theorem splunk_content_type_witness:
  "ini_LoadFile (example_world splunk_conf) example_path = Inr splunk_conf
   \<and> Get splunk_conf ''bridge'' ''output_type'' = Some '' Splunk''
   \<and> normalized (example_world splunk_conf) '' Splunk'' = ''splunk''
   \<and> Get splunk_conf ''http'' ''content_type'' = Some ''text/plain''
   \<and> Get splunk_conf ''splunk'' ''content_type'' = Some ''text/csv''
   \<and> (\<exists>cfg err. ParseConfig (example_world splunk_conf) example_path = Inr (cfg, err)
          \<and> HttpContentType cfg = Some ''text/plain''
          \<and> ParseConfig_input (example_world splunk_conf)
               (ini_set splunk_conf ''splunk'' ''content_type'' ''application/xml'')
             = Inr (cfg, err))"
proof -
  have g: "Get splunk_conf ''http'' ''content_type'' = Some ''text/plain''"
    "Get splunk_conf ''splunk'' ''content_type'' = Some ''text/csv''"
    by (simp_all add: splunk_conf_def library_defs)
  obtain cfg err where r:
    "ParseConfig (example_world splunk_conf) example_path = Inr (cfg, err)"
    using splunk_conf_parses by auto
  have "HttpContentType cfg = Some ''text/plain''
        \<and> ParseConfig_input (example_world splunk_conf)
             (ini_set splunk_conf ''splunk'' ''content_type'' ''application/xml'')
           = Inr (cfg, err)"
    using splunk_content_type [OF example_world_load splunk_conf_output_type
            normalized_examples(2) r, of "''application/xml''"] g
    by simp
  with r have "\<exists>cfg err. ParseConfig (example_world splunk_conf) example_path = Inr (cfg, err)
          \<and> HttpContentType cfg = Some ''text/plain''
          \<and> ParseConfig_input (example_world splunk_conf)
               (ini_set splunk_conf ''splunk'' ''content_type'' ''application/xml'')
             = Inr (cfg, err)"
    by blast
  with g show ?thesis
    by (simp add: example_world_load splunk_conf_output_type normalized_examples)
qed

subsection \<open>The bundle send timeout\<close>

text \<open>
  C9 as stated fails: the value 9223372037 parses as a decimal integer, and the int64
  product with \<^verbatim>\<open>time.Second\<close> wraps around to a negative duration instead of
  9223372037 seconds.
\<close>

theorem bundle_send_timeout_counterexample:
  "Get splunk_conf_long_timeout (normalized (example_world splunk_conf_long_timeout) '' Splunk'') ''bundle_send_timeout''
     = Some ''9223372037''
   \<and> strconv_ParseInt ''9223372037'' = Some 9223372037
   \<and> \<not> isl (ParseConfig (example_world splunk_conf_long_timeout) example_path)
   \<and> BundleSendTimeout
        (fst (projr (ParseConfig (example_world splunk_conf_long_timeout) example_path)))
       = - 9223372036709551616
   \<and> - 9223372036709551616 \<noteq> 9223372037 * time_Second"
  by (simp add: example_world_defs splunk_conf_long_timeout_def splunk_conf_def ini_set_def
      ParseConfig_defs library_defs Let_def)

text \<open>
  C9, amended. Whenever ParseConfig returns for a file that names an output type and has a
  bundle_send_timeout key in the section of that type: if the value parses as a decimal
  integer n with -9223372036 \<le> n \<le> 9223372036, BundleSendTimeout is n seconds; if the
  value does not parse, BundleSendTimeout is the default of five minutes and ParseConfig
  returns exactly what it returns for the file without the key, so no error is added.
\<close>

theorem bundle_send_timeout:
  assumes "ini_LoadFile w fn = Inr input"
      and "Get input ''bridge'' ''output_type'' = Some v"
      and "Get input (normalized w v) ''bundle_send_timeout'' = Some t"
      and "ParseConfig w fn = Inr (cfg, err)"
  shows "(\<forall>n. strconv_ParseInt t = Some n \<and> - 9223372036 \<le> n \<and> n \<le> 9223372036
            \<longrightarrow> BundleSendTimeout cfg = n * time_Second)
         \<and> (strconv_ParseInt t = None
            \<longrightarrow> BundleSendTimeout cfg = 5 * time_Minute
              \<and> ParseConfig_input w (ini_del input (normalized w v) ''bundle_send_timeout'')
                  = Inr (cfg, err))"
proof (intro conjI allI impI)
  from assms have r: "ParseConfig_input w input = Inr (cfg, err)"
    by (simp add: ParseConfig_Inr_input)
  note b = ParseConfig_input_bundle_settings [OF r assms(2)]
  {
    fix n
    assume a: "strconv_ParseInt t = Some n \<and> - 9223372036 \<le> n \<and> n \<le> 9223372036"
    then have "wrap_int64 (n * time_Second) = n * time_Second"
      by (intro wrap_int64_id) (simp_all add: time_Second_def)
    with a b assms(3) show "BundleSendTimeout cfg = n * time_Second"
      by (simp add: bundle_settings_def)
  }
  {
    assume a: "strconv_ParseInt t = None"
    with b assms(3) show "BundleSendTimeout cfg = 5 * time_Minute"
      by (simp add: bundle_settings_def)
    from a r show "ParseConfig_input w (ini_del input (normalized w v) ''bundle_send_timeout'')
                  = Inr (cfg, err)"
      by (simp add: ParseConfig_input_ini_del [OF assms(2) assms(3)])
  }
qed

theorem bundle_send_timeout_witness:
  "ini_LoadFile (example_world splunk_conf) example_path = Inr splunk_conf
   \<and> Get splunk_conf ''bridge'' ''output_type'' = Some '' Splunk''
   \<and> Get splunk_conf (normalized (example_world splunk_conf) '' Splunk'') ''bundle_send_timeout'' = Some ''60''
   \<and> strconv_ParseInt ''60'' = Some 60
   \<and> (\<exists>cfg err. ParseConfig (example_world splunk_conf) example_path = Inr (cfg, err)
          \<and> BundleSendTimeout cfg = 60 * time_Second)
   \<and> ini_LoadFile (example_world splunk_conf_bad_timeout) example_path
       = Inr splunk_conf_bad_timeout
   \<and> Get splunk_conf_bad_timeout ''bridge'' ''output_type'' = Some '' Splunk''
   \<and> Get splunk_conf_bad_timeout (normalized (example_world splunk_conf_bad_timeout) '' Splunk'') ''bundle_send_timeout'' = Some ''5m''
   \<and> strconv_ParseInt ''5m'' = None
   \<and> (\<exists>cfg err. ParseConfig (example_world splunk_conf_bad_timeout) example_path
                   = Inr (cfg, err)
          \<and> BundleSendTimeout cfg = 5 * time_Minute
          \<and> ParseConfig_input (example_world splunk_conf_bad_timeout)
               (ini_del splunk_conf_bad_timeout (normalized (example_world splunk_conf_bad_timeout) '' Splunk'') ''bundle_send_timeout'')
             = Inr (cfg, err))
   \<and> ini_LoadFile kelvin_world example_path = Inr kelvin_conf
   \<and> Get kelvin_conf ''bridge'' ''output_type'' = Some kelvin_SPLUNK
   \<and> Get kelvin_conf (normalized kelvin_world kelvin_SPLUNK) ''bundle_send_timeout''
       = Some ''60''
   \<and> (\<exists>cfg err. ParseConfig kelvin_world example_path = Inr (cfg, err)
          \<and> BundleSendTimeout cfg = 60 * time_Second)"
proof -
  have bad: "\<exists>p. ParseConfig (example_world splunk_conf_bad_timeout) example_path = Inr p"
    by (simp add: example_world_defs splunk_conf_bad_timeout_def splunk_conf_def ini_set_def
        ParseConfig_defs library_defs Let_def)
  have o: "Get splunk_conf_bad_timeout ''bridge'' ''output_type'' = Some '' Splunk''"
    by (simp add: splunk_conf_bad_timeout_def splunk_conf_def ini_set_def Get_def)
  have g: "Get splunk_conf (normalized (example_world splunk_conf) '' Splunk'') ''bundle_send_timeout'' = Some ''60''"
    "Get splunk_conf_bad_timeout (normalized (example_world splunk_conf_bad_timeout) '' Splunk'') ''bundle_send_timeout'' = Some ''5m''"
    by (simp_all add: splunk_conf_bad_timeout_def splunk_conf_def ini_set_def library_defs)
  have p: "strconv_ParseInt ''60'' = Some 60" "strconv_ParseInt ''5m'' = None"
    by (simp_all add: library_defs)
  obtain cfg err where r:
    "ParseConfig (example_world splunk_conf) example_path = Inr (cfg, err)"
    using splunk_conf_parses by auto
  have "BundleSendTimeout cfg = 60 * time_Second"
    using bundle_send_timeout [OF example_world_load splunk_conf_output_type g(1) r] p
    by simp
  with r have 1: "\<exists>cfg err. ParseConfig (example_world splunk_conf) example_path = Inr (cfg, err)
          \<and> BundleSendTimeout cfg = 60 * time_Second"
    by blast
  obtain cfg' err' where r':
    "ParseConfig (example_world splunk_conf_bad_timeout) example_path = Inr (cfg', err')"
    using bad by auto
  have "BundleSendTimeout cfg' = 5 * time_Minute
        \<and> ParseConfig_input (example_world splunk_conf_bad_timeout)
             (ini_del splunk_conf_bad_timeout (normalized (example_world splunk_conf_bad_timeout) '' Splunk'') ''bundle_send_timeout'')
           = Inr (cfg', err')"
    using bundle_send_timeout [OF example_world_load o g(2) r'] p
    by simp
  with r' have 2: "\<exists>cfg err. ParseConfig (example_world splunk_conf_bad_timeout) example_path
                   = Inr (cfg, err)
          \<and> BundleSendTimeout cfg = 5 * time_Minute
          \<and> ParseConfig_input (example_world splunk_conf_bad_timeout)
               (ini_del splunk_conf_bad_timeout (normalized (example_world splunk_conf_bad_timeout) '' Splunk'') ''bundle_send_timeout'')
             = Inr (cfg, err)"
    by blast
  obtain cfg'' err'' where r'': "ParseConfig kelvin_world example_path = Inr (cfg'', err'')"
    using kelvin_conf_parses by auto
  have k: "Get kelvin_conf (normalized kelvin_world kelvin_SPLUNK) ''bundle_send_timeout''
             = Some ''60''"
    by (simp add: kelvin_conf_facts)
  have "BundleSendTimeout cfg'' = 60 * time_Second"
    using bundle_send_timeout [OF kelvin_conf_facts(1) kelvin_conf_facts(2) k r''] p
    by simp
  with r'' have 3: "\<exists>cfg err. ParseConfig kelvin_world example_path = Inr (cfg, err)
          \<and> BundleSendTimeout cfg = 60 * time_Second"
    by blast
  from 1 2 3 g p o k show ?thesis
    by (simp add: example_world_load splunk_conf_output_type kelvin_conf_facts)
qed

subsection \<open>The destination parameter\<close>





end
